theory Spec2Isabelle
  imports Complex_Main "HOL-Library.Log_Nat"
begin

section \<open>PPO training core of trlx: \<open>trlx/model/accelerate_ppo_model.py\<close>\<close>

text \<open>
  Numbers. The tensors and scalars of the source are floating-point values; the model
  computes with \<^typ>\<open>real\<close>, so rounding, overflow, \<open>inf\<close> and \<open>nan\<close> are not
  represented. Where the source would produce \<open>inf\<close> or \<open>nan\<close> without raising (a
  numpy division by zero, the mean of an empty tensor) the model stops with
  \<open>NonFiniteResult\<close> instead of going on with a real number that the program never had.
  Python integers are \<^typ>\<open>int\<close>. The one place where the rounding itself decides a
  property, the direction in which the adaptive KL controller moves its value, is
  modelled a second time in double precision (\<open>update64\<close>).
\<close>

datatype error =
    ZeroDivisionError   \<comment> \<open>Python: division or modulo by zero\<close>
  | AttributeError      \<comment> \<open>Python: reading an attribute that was never assigned\<close>
  | RuntimeError        \<comment> \<open>torch: \<open>torch.stack\<close> of an empty list\<close>
  | NonFiniteResult     \<comment> \<open>not an exception: the float result is \<open>inf\<close> or \<open>nan\<close>\<close>

subsection \<open>KL controllers (lines 24--44)\<close>

text \<open>
  The two controller classes share the attribute \<open>value\<close> and the method \<open>update\<close>; the
  training loop uses either through \<open>self.kl_ctl\<close>. One datatype with one constructor
  per class models this; the selector for the attribute \<open>value\<close> is \<open>value'\<close>.
\<close>

datatype KLController =
    Adaptive (value': real) (target: real) (horizon: real)
  | Fixed (value': real)

text \<open>\<open>AdaptiveKLController.__init__\<close>: three assignments, no check.\<close>

definition AdaptiveKLController_init :: "real \<Rightarrow> real \<Rightarrow> real \<Rightarrow> error + KLController" where
  "AdaptiveKLController_init init_kl_coef tgt hor = Inr (Adaptive init_kl_coef tgt hor)"

text \<open>\<open>FixedKLController.__init__\<close>.\<close>

definition FixedKLController_init :: "real \<Rightarrow> error + KLController" where
  "FixedKLController_init kl_coef = Inr (Fixed kl_coef)"

text \<open>\<open>np.clip(x, lo, hi)\<close> is \<open>minimum(maximum(x, lo), hi)\<close>.\<close>

definition np_clip :: "real \<Rightarrow> real \<Rightarrow> real \<Rightarrow> real" where
  "np_clip x lo hi = min (max x lo) hi"

text \<open>
  The multiplier of \<open>AdaptiveKLController.update\<close> (lines 32--33), for a non-zero
  target and horizon.
\<close>

definition mult :: "real \<Rightarrow> real \<Rightarrow> real \<Rightarrow> real \<Rightarrow> real" where
  "mult tgt hor current n_steps =
     (let proportional_error = np_clip (current / tgt - 1) (- 0.2) 0.2
      in 1 + proportional_error * n_steps / hor)"

text \<open>
  \<open>update\<close> of both classes. In the adaptive one \<open>current / target\<close> divides two Python
  numbers, so a zero target raises \<open>ZeroDivisionError\<close>; the division by the horizon has
  a numpy float on the left (the result of \<open>np.clip\<close>), so a zero horizon gives \<open>inf\<close> or
  \<open>nan\<close> with a warning. The fixed one is \<open>pass\<close>.
\<close>

fun update :: "KLController \<Rightarrow> real \<Rightarrow> real \<Rightarrow> error + KLController" where
  "update (Adaptive v tgt hor) current n_steps =
     (if tgt = 0 then Inl ZeroDivisionError
      else if hor = 0 then Inl NonFiniteResult
      else Inr (Adaptive (v * mult tgt hor current n_steps) tgt hor))"
| "update (Fixed v) current n_steps = Inr (Fixed v)"

text \<open>A sequence of \<open>update(current, n_steps)\<close> calls; the first exception ends it.\<close>

fun updates :: "KLController \<Rightarrow> (real \<times> real) list \<Rightarrow> error + KLController" where
  "updates c [] = Inr c"
| "updates c ((current, n_steps) # calls) =
     (case update c current n_steps of
        Inl e \<Rightarrow> Inl e
      | Inr c' \<Rightarrow> updates c' calls)"

subsection \<open>The adaptive update in double precision\<close>

text \<open>
  \<open>update\<close> above computes in exact arithmetic, which is enough for when it raises and
  for how the training loop calls it. How \<open>value\<close> moves is decided by the rounding of
  the doubles the program computes with, so the same function is written out again in
  IEEE 754 binary64 arithmetic. \<open>rne\<close> rounds a real to the nearest integer, ties to the
  even one. \<open>expo x\<close> is the exponent \<open>e\<close> with \<open>2^e \<le> |x| < 2^(e+1)\<close>, computed from the
  bit length of the integer part (of \<open>|x|\<close>, or of \<open>1 / |x|\<close> below one). A double has 53
  significant bits and its exponent is at least \<open>-1022\<close> (below that the spacing stays
  that of the subnormal numbers), so the spacing of the doubles around \<open>x\<close> is \<open>ulp64 x\<close>,
  and \<open>fl64 x\<close> is the multiple of it nearest to \<open>x\<close>: the double an operation returns
  whose exact result is \<open>x\<close>. A result of magnitude \<open>2^1024\<close> or more is the program's
  \<open>inf\<close>.
\<close>

definition rne :: "real \<Rightarrow> int" where
  "rne y =
     (let f = \<lfloor>y\<rfloor>; d = y - of_int f
      in if d < 1 / 2 then f
         else if 1 / 2 < d then f + 1
         else if even f then f else f + 1)"

text \<open>The exponent of a non-zero real.\<close>

definition expo :: "real \<Rightarrow> int" where
  "expo x =
     (let a = \<bar>x\<bar>
      in if 1 \<le> a then bitlen \<lfloor>a\<rfloor> - 1 else - bitlen (\<lceil>1 / a\<rceil> - 1))"

text \<open>The spacing of the doubles around \<open>x\<close>, and rounding to the nearest double.\<close>

definition ulp64 :: "real \<Rightarrow> real" where
  "ulp64 x = 2 powi (max (expo x) (- 1022) - 52)"

definition fl64 :: "real \<Rightarrow> real" where
  "fl64 x = (if x = 0 then 0 else ulp64 x * of_int (rne (x / ulp64 x)))"

definition finite64 :: "real \<Rightarrow> bool" where
  "finite64 r \<longleftrightarrow> \<bar>r\<bar> < 2 ^ 1024"

text \<open>
  One floating-point operation with the exact result \<open>x\<close>, and what follows it: the
  computation goes on with the rounded result, and stops with \<open>NonFiniteResult\<close> when
  that is \<open>inf\<close>.
\<close>

definition op64 :: "real \<Rightarrow> (real \<Rightarrow> error + 'a) \<Rightarrow> error + 'a" where
  "op64 x k = (let r = fl64 x in if finite64 r then k r else Inl NonFiniteResult)"

text \<open>
  \<open>update\<close> (lines 30--34) operation by operation: the division by the target, the
  subtraction, \<open>np.clip\<close> between the doubles \<open>-0.2\<close> and \<open>0.2\<close>, the multiplication by
  \<open>n_steps\<close>, the division by the horizon, the addition to one and the multiplication
  into \<open>value\<close>. The arguments are the numbers the program holds: doubles, or integers
  that a double represents exactly.
\<close>

fun update64 :: "KLController \<Rightarrow> real \<Rightarrow> real \<Rightarrow> error + KLController" where
  "update64 (Adaptive v tgt hor) current n_steps =
     (if tgt = 0 then Inl ZeroDivisionError
      else
        op64 (current / tgt) (\<lambda>q.
        op64 (q - 1) (\<lambda>d.
          let proportional_error = np_clip d (- fl64 0.2) (fl64 0.2)
          in op64 (proportional_error * n_steps) (\<lambda>a.
               if hor = 0 then Inl NonFiniteResult
               else
                 op64 (a / hor) (\<lambda>b.
                 op64 (1 + b) (\<lambda>mult.
                 op64 (v * mult) (\<lambda>v'. Inr (Adaptive v' tgt hor))))))))"
| "update64 (Fixed v) current n_steps = Inr (Fixed v)"

text \<open>A sequence of \<open>update(current, n_steps)\<close> calls in double precision.\<close>

fun updates64 :: "KLController \<Rightarrow> (real \<times> real) list \<Rightarrow> error + KLController" where
  "updates64 c [] = Inr c"
| "updates64 c ((current, n_steps) # calls) =
     (case update64 c current n_steps of
        Inl e \<Rightarrow> Inl e
      | Inr c' \<Rightarrow> updates64 c' calls)"

subsection \<open>Tensors\<close>

text \<open>
  A tensor indexed \<open>[batch, time]\<close> is the list of its rows, one row per batch
  element. \<open>rect B T m\<close> says that \<open>m\<close> has shape \<open>[B, T]\<close>. The functions below are
  written for the rectangular batches the rollout storage produces; on other shapes
  torch raises or broadcasts, which the list model does not represent, and the theorems
  state the shapes they are about.
\<close>

type_synonym tensor2 = "real list list"

definition rect :: "nat \<Rightarrow> nat \<Rightarrow> tensor2 \<Rightarrow> bool" where
  "rect B T m = (length m = B \<and> list_all (\<lambda>row. length row = T) m)"

text \<open>\<open>m[:, t]\<close>: column \<open>t\<close>, a vector over the batch.\<close>

definition col :: "tensor2 \<Rightarrow> nat \<Rightarrow> real list" where
  "col m t = map (\<lambda>row. row ! t) m"

text \<open>Elementwise operations on vectors and on \<open>[batch, time]\<close> tensors.\<close>

definition vmap2 :: "(real \<Rightarrow> real \<Rightarrow> real) \<Rightarrow> real list \<Rightarrow> real list \<Rightarrow> real list" where
  "vmap2 f xs ys = map (\<lambda>(x, y). f x y) (zip xs ys)"

definition smul :: "real \<Rightarrow> real list \<Rightarrow> real list" where
  "smul a xs = map (\<lambda>x. a * x) xs"

definition tmap :: "(real \<Rightarrow> real) \<Rightarrow> tensor2 \<Rightarrow> tensor2" where
  "tmap f m = map (map f) m"

definition tmap2 :: "(real \<Rightarrow> real \<Rightarrow> real) \<Rightarrow> tensor2 \<Rightarrow> tensor2 \<Rightarrow> tensor2" where
  "tmap2 f a b = map (\<lambda>(r, r'). vmap2 f r r') (zip a b)"

text \<open>
  \<open>torch.stack(rows).transpose(0, 1)\<close> for a non-empty list of vectors of one length:
  entry \<open>[b, t]\<close> of the result is entry \<open>b\<close> of the \<open>t\<close>-th vector.
\<close>

definition stack_transpose :: "real list list \<Rightarrow> tensor2" where
  "stack_transpose rows = map (\<lambda>b. map (\<lambda>r. r ! b) rows) [0..<length (hd rows)]"

text \<open>\<open>torch.mean\<close> of a vector and of a \<open>[batch, time]\<close> tensor (all elements).\<close>

definition vmean :: "real list \<Rightarrow> real" where
  "vmean xs = sum_list xs / real (length xs)"

definition torch_mean :: "tensor2 \<Rightarrow> real" where
  "torch_mean m = vmean (concat m)"

text \<open>\<open>torch.clamp(x, lo, hi)\<close> is \<open>min(max(x, lo), hi)\<close>.\<close>

definition torch_clamp :: "real \<Rightarrow> real \<Rightarrow> real \<Rightarrow> real" where
  "torch_clamp x lo hi = min (max x lo) hi"

text \<open>
  Modelled from the spec: \<open>clip_by_value\<close> of \<open>trlx.utils.modeling\<close> is imported by
  the source and is not part of it. The spec (4.2, step 3) says it clips \<open>new_value\<close>
  to the interval between the two bounds, elementwise.
\<close>

definition clip_by_value :: "tensor2 \<Rightarrow> tensor2 \<Rightarrow> tensor2 \<Rightarrow> tensor2" where
  "clip_by_value x tensor_min tensor_max = tmap2 max (tmap2 min x tensor_max) tensor_min"

text \<open>
  Python slices of a row: \<open>row[-n:]\<close> for \<open>n \<ge> 1\<close> (the last \<open>n\<close> entries, the whole
  row when it is shorter) and \<open>row[-n-1:-1]\<close> (the \<open>n\<close> entries before the last one).
\<close>

definition slice_last :: "nat \<Rightarrow> 'a list \<Rightarrow> 'a list" where
  "slice_last n row = drop (length row - n) row"

definition slice_before_last :: "nat \<Rightarrow> 'a list \<Rightarrow> 'a list" where
  "slice_before_last n row = drop (length row - (n + 1)) (butlast row)"

subsection \<open>Configuration\<close>

text \<open>
  The fields of \<open>config.method\<close> and \<open>config.train\<close> that the source reads
  (\<open>method_cfg\<close> and \<open>train_cfg\<close> below). \<open>method_target = None\<close> is Python's
  \<open>None\<close>.
\<close>

record method_config =
  gamma :: real
  lam :: real
  cliprange :: real
  cliprange_value :: real
  vf_coef :: real
  ppo_epochs :: int
  num_rollouts :: int
  init_kl_coef :: real
  method_target :: "real option"
  method_horizon :: real

record train_config =
  batch_size :: int
  total_steps :: int
  epochs :: int
  eval_interval :: int

record TRLConfig =
  method_cfg :: method_config
  train_cfg :: train_config

subsection \<open>Generalized advantage estimation (lines 68--84 of \<open>loss\<close>)\<close>

text \<open>
  One iteration of the loop over \<open>t\<close>. The state is \<open>(lastgaelam,
  advantages_reversed)\<close>. The scalars \<open>0\<close> and \<open>0.0\<close> of the source broadcast over the
  batch; the model writes them as vectors of zeros, one per batch element.
\<close>

definition gae_step ::
  "method_config \<Rightarrow> nat \<Rightarrow> tensor2 \<Rightarrow> tensor2 \<Rightarrow>
   real list \<times> real list list \<Rightarrow> nat \<Rightarrow> real list \<times> real list list" where
  "gae_step m gen_len all_values all_rewards st t =
     (let lastgaelam = fst st;
          advantages_reversed = snd st;
          nextvalues = (if int t < int gen_len - 1 then col all_values (t + 1)
                        else replicate (length all_values) 0);
          delta = vmap2 (-) (vmap2 (+) (col all_rewards t) (smul (gamma m) nextvalues))
                    (col all_values t);
          lastgaelam' = vmap2 (+) delta (smul (gamma m * lam m) lastgaelam)
      in (lastgaelam', advantages_reversed @ [lastgaelam']))"

text \<open>
  The loop \<open>for t in reversed(range(gen_len))\<close>, then the stacking of the reversed list,
  the transposition and \<open>returns = advantages + all_values\<close>. \<open>torch.stack\<close> raises on
  the empty list, that is when \<open>gen_len = 0\<close>. The result is the pair of the raw
  advantages (before whitening) and the returns.
\<close>

definition gae ::
  "method_config \<Rightarrow> nat \<Rightarrow> tensor2 \<Rightarrow> tensor2 \<Rightarrow> error + (tensor2 \<times> tensor2)" where
  "gae m gen_len all_values all_rewards =
     (let st = foldl (gae_step m gen_len all_values all_rewards)
                 (replicate (length all_values) 0, []) (rev [0..<gen_len]);
          advantages_reversed = snd st
      in if advantages_reversed = [] then Inl RuntimeError
         else
           let advantages = stack_transpose (rev advantages_reversed);
               returns = tmap2 (+) advantages all_values
           in Inr (advantages, returns))"

subsection \<open>Value loss and policy loss (lines 95--117 of \<open>loss\<close>)\<close>

definition value_loss :: "method_config \<Rightarrow> tensor2 \<Rightarrow> tensor2 \<Rightarrow> tensor2 \<Rightarrow> real" where
  "value_loss m vpred all_values returns =
     (let vpredclipped =
            clip_by_value vpred
              (tmap (\<lambda>v. v - cliprange_value m) all_values)
              (tmap (\<lambda>v. v + cliprange_value m) all_values);
          vf_losses1 = tmap (\<lambda>d. d ^ 2) (tmap2 (-) vpred returns);
          vf_losses2 = tmap (\<lambda>d. d ^ 2) (tmap2 (-) vpredclipped returns)
      in 0.5 * torch_mean (tmap2 max vf_losses1 vf_losses2))"

text \<open>\<open>kl\<close>, the recorded \<open>mean_kl\<close> and the policy loss.\<close>

definition kl_of :: "tensor2 \<Rightarrow> tensor2 \<Rightarrow> tensor2" where
  "kl_of logprob all_logprobs = tmap2 (-) logprob all_logprobs"

definition mean_kl_of :: "tensor2 \<Rightarrow> real" where
  "mean_kl_of kl = vmean (map sum_list kl)"

definition policy_loss :: "method_config \<Rightarrow> tensor2 \<Rightarrow> tensor2 \<Rightarrow> real" where
  "policy_loss m advantages kl =
     (let ratio = tmap exp kl;
          pg_losses = tmap2 (\<lambda>a r. - a * r) advantages ratio;
          pg_losses2 = tmap2 (\<lambda>a r. - a * torch_clamp r (1 - cliprange m) (1 + cliprange m))
                         advantages ratio
      in torch_mean (tmap2 max pg_losses pg_losses2))"

subsection \<open>\<open>AcceleratePPOModel.loss\<close> (lines 65--120)\<close>

text \<open>
  What \<open>loss\<close> returns, with the value it stores into \<open>self.mean_kl\<close> on the way.
\<close>

record loss_out =
  model_loss :: real
  pg_loss :: real
  vf_loss :: real
  recorded_mean_kl :: real

text \<open>
  The forward pass of the policy and \<open>logprobs_from_logits\<close> are outside the source:
  \<open>logprob_all\<close> and \<open>vpred_all\<close> are their results for the concatenated tokens (the
  log-probabilities of \<open>all_tokens[:, 1:]\<close> and the value predictions of every
  position). \<open>whiten\<close> of \<open>trlx.utils.modeling\<close> is a parameter as well. \<open>gen_len\<close> is
  \<open>response_tensors.shape[1]\<close>. The mean of a tensor with no element is \<open>nan\<close>.
\<close>

definition loss ::
  "method_config \<Rightarrow> (tensor2 \<Rightarrow> tensor2) \<Rightarrow> tensor2 \<Rightarrow> tensor2 \<Rightarrow> nat \<Rightarrow>
   tensor2 \<Rightarrow> tensor2 \<Rightarrow> tensor2 \<Rightarrow> error + loss_out" where
  "loss m whiten logprob_all vpred_all gen_len all_logprobs all_values all_rewards =
     (case gae m gen_len all_values all_rewards of
        Inl e \<Rightarrow> Inl e
      | Inr (advantages_raw, returns) \<Rightarrow>
          let advantages = whiten advantages_raw;
              logprob = map (slice_last gen_len) logprob_all;
              vpred = map (slice_before_last gen_len) vpred_all;
              vfl = value_loss m vpred all_values returns;
              kl = kl_of logprob all_logprobs;
              pgl = policy_loss m advantages kl
          in if all_values = [] then Inl NonFiniteResult
             else Inr \<lparr> model_loss = pgl + vf_coef m * vfl, pg_loss = pgl, vf_loss = vfl,
                        recorded_mean_kl = mean_kl_of kl \<rparr>)"

text \<open>
  The GAE recurrence as the specification writes it (4.1), for one batch element with
  values \<open>V\<close> and rewards \<open>R\<close> of length \<open>T\<close>: \<open>gae_spec g l V R T t\<close> is \<open>lastgae\<close> after the
  iteration for position \<open>t\<close>, and \<open>0\<close> before the first iteration (\<open>t \<ge> T\<close>).
\<close>

function gae_spec :: "real \<Rightarrow> real \<Rightarrow> real list \<Rightarrow> real list \<Rightarrow> nat \<Rightarrow> nat \<Rightarrow> real" where
  "gae_spec g l V R T t =
     (if T \<le> t then 0
      else
        let next_value = (if int t < int T - 1 then V ! (t + 1) else 0);
            delta = R ! t + g * next_value - V ! t
        in delta + g * l * gae_spec g l V R T (Suc t))"
  by pat_completeness auto
termination
  by (relation "measure (\<lambda>(g, l, V, R, T, t). T - t)") auto

text \<open>The vector of \<open>lastgae\<close> over the batch after the iteration for position \<open>t\<close>.\<close>

definition gae_vec :: "method_config \<Rightarrow> nat \<Rightarrow> tensor2 \<Rightarrow> tensor2 \<Rightarrow> nat \<Rightarrow> real list" where
  "gae_vec m T V R t =
     map (\<lambda>b. gae_spec (gamma m) (lam m) (V ! b) (R ! b) T t) [0..<length V]"

subsection \<open>The state of the trainer\<close>

text \<open>
  A mini-batch of the rollout loader. The tokens are opaque to this file; only
  \<open>response_tensors.shape[1]\<close> is read, which for a list of rows is the length of the
  first row. The field \<open>values\<close> of the source is \<open>values'\<close> here.
\<close>

record batch =
  query_tensors :: "int list list"
  response_tensors :: "int list list"
  logprobs :: tensor2
  values' :: tensor2
  rewards :: tensor2

definition shape1 :: "'a list list \<Rightarrow> nat" where
  "shape1 m = (case m of [] \<Rightarrow> 0 | row # _ \<Rightarrow> length row)"

text \<open>The dictionary \<open>self.logs\<close> written by every optimization pass (lines 190--196).\<close>

record logs_dict =
  log_loss :: real
  log_pg_loss :: real
  log_vf_loss :: real
  log_batch :: batch
  log_rewards :: tensor2

text \<open>
  What the trainer does to its collaborators, in order. \<open>EvLoss b k\<close> is one call of
  \<open>self.loss\<close> on the mini-batch \<open>b\<close> that recorded the mean KL \<open>k\<close>; \<open>EvKLUpdate c n\<close>
  is \<open>self.kl_ctl.update(c, n)\<close>; \<open>EvEvaluate i\<close> is the evaluation and logging at step
  \<open>i\<close>; \<open>EvBarrier\<close> is \<open>accelerator.wait_for_everyone()\<close>.
\<close>

datatype event =
    EvLoss batch real
  | EvZeroGrad
  | EvBackward
  | EvOptStep
  | EvSchedStep
  | EvKLUpdate real real
  | EvEvaluate int
  | EvBarrier
  | EvClearHistory
  | EvMakeExperience int int

text \<open>
  The collaborators, as parameters. \<open>'p\<close> is the state of the policy network with its
  optimizer and scheduler. \<open>forward p b\<close> is the forward pass on the tokens of \<open>b\<close>
  followed by \<open>logprobs_from_logits\<close>; \<open>opt_step p b\<close> is the policy after
  \<open>zero_grad\<close>, \<open>backward\<close> of the loss on \<open>b\<close>, \<open>opt.step\<close> and \<open>scheduler.step\<close>;
  \<open>make_experience p n i\<close> is the list of mini-batches the loader yields once the
  store was cleared and refilled by \<open>orch.make_experience(n, i)\<close>.
\<close>

record 'p env =
  forward :: "'p \<Rightarrow> batch \<Rightarrow> tensor2 \<times> tensor2"
  whiten_fn :: "tensor2 \<Rightarrow> tensor2"
  opt_step :: "'p \<Rightarrow> batch \<Rightarrow> 'p"
  make_experience :: "'p \<Rightarrow> int \<Rightarrow> int \<Rightarrow> batch list"
  is_main_process :: bool

text \<open>
  The attributes of \<open>self\<close> that \<open>learn\<close> and its callbacks read and write.
  \<open>mean_kl\<close> and \<open>logs\<close> are \<open>None\<close> while the attribute has never been assigned.
  \<open>store\<close> is the list of mini-batches the rollout loader yields when iterated.
\<close>

record 'p model =
  policy :: 'p
  store :: "batch list"
  kl_ctl :: KLController
  iter_count :: int
  epoch :: int
  mean_kl :: "real option"
  logs :: "logs_dict option"
  trace :: "event list"

text \<open>
  \<open>AcceleratePPOModel.__init__\<close> (lines 48--59): the controller is adaptive when
  \<open>config.method.target\<close> is not \<open>None\<close>. Neither \<open>mean_kl\<close> nor \<open>logs\<close> is assigned.
  \<open>p0\<close> is the policy the base class builds, \<open>rollouts\<close> what the orchestrator has put
  into the store before \<open>learn\<close> is called.
\<close>

definition AcceleratePPOModel_init :: "TRLConfig \<Rightarrow> 'p \<Rightarrow> batch list \<Rightarrow> error + 'p model" where
  "AcceleratePPOModel_init config p0 rollouts =
     (case (case method_target (method_cfg config) of
              Some tgt \<Rightarrow>
                AdaptiveKLController_init (init_kl_coef (method_cfg config)) tgt
                  (method_horizon (method_cfg config))
            | None \<Rightarrow> FixedKLController_init (init_kl_coef (method_cfg config))) of
        Inl e \<Rightarrow> Inl e
      | Inr c \<Rightarrow>
          Inr \<lparr> policy = p0, store = rollouts, kl_ctl = c, iter_count = 0, epoch = 0,
                mean_kl = None, logs = None, trace = [] \<rparr>)"

subsection \<open>\<open>learn\<close> and its callbacks (lines 122--209)\<close>

text \<open>The body of \<open>for _ in range(ppo_epochs)\<close> (lines 187--203).\<close>

definition optimization_pass :: "'p env \<Rightarrow> TRLConfig \<Rightarrow> batch \<Rightarrow> 'p model \<Rightarrow> error + 'p model" where
  "optimization_pass env config b s =
     (case loss (method_cfg config) (whiten_fn env)
             (fst (forward env (policy s) b)) (snd (forward env (policy s) b))
             (shape1 (response_tensors b)) (logprobs b) (values' b) (rewards b) of
        Inl e \<Rightarrow> Inl e
      | Inr out \<Rightarrow>
          Inr (s\<lparr> mean_kl := Some (recorded_mean_kl out),
                  logs := Some \<lparr> log_loss = model_loss out, log_pg_loss = pg_loss out,
                                 log_vf_loss = vf_loss out, log_batch = b,
                                 log_rewards = rewards b \<rparr>,
                  policy := opt_step env (policy s) b,
                  iter_count := iter_count s + 1,
                  trace := trace s @
                    [EvLoss b (recorded_mean_kl out), EvZeroGrad, EvBackward, EvOptStep,
                     EvSchedStep] \<rparr>))"

text \<open>\<open>n\<close> passes over the same mini-batch; an exception ends them.\<close>

fun passes :: "'p env \<Rightarrow> TRLConfig \<Rightarrow> batch \<Rightarrow> nat \<Rightarrow> 'p model \<Rightarrow> error + 'p model" where
  "passes env config b 0 s = Inr s"
| "passes env config b (Suc n) s =
     (case optimization_pass env config b s of
        Inl e \<Rightarrow> Inl e
      | Inr s' \<Rightarrow> passes env config b n s')"

text \<open>
  \<open>post_backward_callback\<close> (lines 130--161). It reads \<open>self.logs["batch"]\<close>, then
  \<open>self.mean_kl\<close>; the evaluation itself (generation, scoring, logging) is one event.
  \<open>iter_count % eval_interval\<close> raises when the interval is zero.
\<close>

definition post_backward_callback :: "'p env \<Rightarrow> TRLConfig \<Rightarrow> 'p model \<Rightarrow> error + 'p model" where
  "post_backward_callback env config s =
     (case logs s of
        None \<Rightarrow> Inl AttributeError
      | Some lg \<Rightarrow>
          (case mean_kl s of
             None \<Rightarrow> Inl AttributeError
           | Some k \<Rightarrow>
               (case update (kl_ctl s) k (of_int (batch_size (train_cfg config))) of
                  Inl e \<Rightarrow> Inl e
                | Inr c \<Rightarrow>
                    let s1 = s\<lparr> kl_ctl := c,
                                 trace := trace s @
                                   [EvKLUpdate k (of_int (batch_size (train_cfg config)))] \<rparr>
                    in if is_main_process env then
                         if eval_interval (train_cfg config) = 0 then Inl ZeroDivisionError
                         else if iter_count s mod eval_interval (train_cfg config) = 0
                                 \<or> iter_count s \<le> ppo_epochs (method_cfg config)
                         then Inr (s1\<lparr> trace := trace s1 @ [EvEvaluate (iter_count s)] \<rparr>)
                         else Inr s1
                       else Inr s1)))"

text \<open>The body of \<open>for batch in rollout_loader\<close> (lines 180--206).\<close>

definition process_batch :: "'p env \<Rightarrow> TRLConfig \<Rightarrow> 'p model \<Rightarrow> batch \<Rightarrow> error + 'p model" where
  "process_batch env config s b =
     (case passes env config b (nat (ppo_epochs (method_cfg config))) s of
        Inl e \<Rightarrow> Inl e
      | Inr s1 \<Rightarrow>
          (case post_backward_callback env config s1 of
             Inl e \<Rightarrow> Inl e
           | Inr s2 \<Rightarrow> Inr (s2\<lparr> trace := trace s2 @ [EvBarrier] \<rparr>)))"

fun run_batches :: "'p env \<Rightarrow> TRLConfig \<Rightarrow> 'p model \<Rightarrow> batch list \<Rightarrow> error + 'p model" where
  "run_batches env config s [] = Inr s"
| "run_batches env config s (b # bs) =
     (case process_batch env config s b of
        Inl e \<Rightarrow> Inl e
      | Inr s' \<Rightarrow> run_batches env config s' bs)"

text \<open>\<open>post_epoch_callback\<close> (lines 122--128).\<close>

definition post_epoch_callback :: "'p env \<Rightarrow> TRLConfig \<Rightarrow> 'p model \<Rightarrow> 'p model" where
  "post_epoch_callback env config s =
     s\<lparr> epoch := epoch s + 1,
        store := make_experience env (policy s) (num_rollouts (method_cfg config)) (iter_count s),
        trace := trace s @
          [EvClearHistory, EvMakeExperience (num_rollouts (method_cfg config)) (iter_count s)] \<rparr>"

text \<open>The body of the \<open>while\<close> loop (lines 178--209): one epoch.\<close>

definition epoch_body :: "'p env \<Rightarrow> TRLConfig \<Rightarrow> 'p model \<Rightarrow> error + 'p model" where
  "epoch_body env config s =
     (case run_batches env config s (store s) of
        Inl e \<Rightarrow> Inl e
      | Inr s1 \<Rightarrow>
          let s2 = post_epoch_callback env config s1
          in Inr (s2\<lparr> trace := trace s2 @ [EvBarrier] \<rparr>))"

text \<open>The condition of the \<open>while\<close> loop (lines 174--177).\<close>

definition loop_condition :: "TRLConfig \<Rightarrow> 'p model \<Rightarrow> bool" where
  "loop_condition config s =
     (iter_count s < total_steps (train_cfg config) \<or> epoch s \<le> epochs (train_cfg config))"

text \<open>
  The \<open>while\<close> loop. It need not terminate (an empty store never advances
  \<open>iter_count\<close>), so it runs on fuel, one unit per epoch: \<open>None\<close> is ``still running
  when the fuel ran out'', \<open>Some (Inl e)\<close> an exception, \<open>Some (Inr s)\<close> the normal exit.
  The condition is tested before any fuel is needed.
\<close>

fun learn_loop :: "'p env \<Rightarrow> TRLConfig \<Rightarrow> nat \<Rightarrow> 'p model \<Rightarrow> (error + 'p model) option" where
  "learn_loop env config fuel s =
     (if loop_condition config s then
        (case fuel of
           0 \<Rightarrow> None
         | Suc fuel' \<Rightarrow>
             (case epoch_body env config s of
                Inl e \<Rightarrow> Some (Inl e)
              | Inr s' \<Rightarrow> learn_loop env config fuel' s'))
      else Some (Inr s))"

text \<open>\<open>learn\<close> (lines 163--209): both counters are reset, then the loop runs.\<close>

definition learn :: "'p env \<Rightarrow> TRLConfig \<Rightarrow> nat \<Rightarrow> 'p model \<Rightarrow> (error + 'p model) option" where
  "learn env config fuel s = learn_loop env config fuel (s\<lparr> iter_count := 0, epoch := 0 \<rparr>)"

subsection \<open>A configuration for the examples\<close>

text \<open>
  A method section with \<open>gamma = lam = 1\<close> and an adaptive KL target; the examples
  below change single fields of it.
\<close>

definition m0 :: method_config where
  "m0 = \<lparr> gamma = 1, lam = 1, cliprange = 0.2, cliprange_value = 0.2, vf_coef = 2.3,
          ppo_epochs = 4, num_rollouts = 128, init_kl_coef = 0.2, method_target = Some 6,
          method_horizon = 10000 \<rparr>"

text \<open>
  A mini-batch of one trajectory with a prompt of one token and a response of one
  token, and collaborators for it: the policy state is the number of optimizer steps
  taken, the new log-probability grows by one with every step (so the mean KL recorded
  by a pass is the number of steps taken before it), and the whitened advantages are
  zero. Only the coordinator process is modelled.
\<close>

definition b0 :: batch where
  "b0 = \<lparr> query_tensors = [[5]], response_tensors = [[7]], logprobs = [[- 1]],
          values' = [[0]], rewards = [[1]] \<rparr>"

definition env0 :: "nat env" where
  "env0 = \<lparr> forward = (\<lambda>p b. ([[real p - 1]], [[0, 0]])),
            whiten_fn = (\<lambda>a. [[0]]),
            opt_step = (\<lambda>p b. Suc p),
            make_experience = (\<lambda>p n i. [b0]),
            is_main_process = True \<rparr>"

definition config0 :: TRLConfig where
  "config0 = \<lparr> method_cfg = m0\<lparr>ppo_epochs := 2\<rparr>,
               train_cfg = \<lparr> batch_size = 8, total_steps = 0, epochs = 0,
                             eval_interval = 4 \<rparr> \<rparr>"

text \<open>The trainer that \<open>__init__\<close> builds from \<open>config0\<close>, with the store holding \<open>b0\<close>.\<close>

definition model0 :: "nat model" where
  "model0 = \<lparr> policy = 0, store = [b0], kl_ctl = Adaptive 0.2 6 10000, iter_count = 0,
              epoch = 0, mean_kl = None, logs = None, trace = [] \<rparr>"

section \<open>Properties of the KL controllers\<close>

lemma updates_Fixed: "updates (Fixed k) calls = Inr (Fixed k)"
  by (induction calls) auto

text \<open>
  C9. The fixed controller's \<open>update\<close> is a no-op: after any sequence of calls, with any
  arguments, no call has raised and \<open>value\<close> is the coefficient given at construction.
\<close>

theorem C9_fixed_update_noop:
  "FixedKLController_init k = Inr (Fixed k) \<and>
   updates (Fixed k) calls = Inr (Fixed k) \<and>
   value' (Fixed k) = k"
  by (simp add: FixedKLController_init_def updates_Fixed)

subsection \<open>Rounding to the nearest double\<close>

lemma rne_of_int [simp]: "rne (of_int k) = k"
  by (simp add: rne_def)

lemma rne_bounds: "\<lfloor>y\<rfloor> \<le> rne y \<and> rne y \<le> \<lfloor>y\<rfloor> + 1"
  by (simp add: rne_def Let_def)

lemma rne_mono: "y \<le> z \<Longrightarrow> rne y \<le> rne z"
proof -
  assume yz: "y \<le> z"
  then have f: "\<lfloor>y\<rfloor> \<le> \<lfloor>z\<rfloor>" by (rule floor_mono)
  show ?thesis
  proof (cases "\<lfloor>y\<rfloor> = \<lfloor>z\<rfloor>")
    case True
    then show ?thesis using yz by (auto simp: rne_def Let_def)
  next
    case False
    with f have "\<lfloor>y\<rfloor> + 1 \<le> \<lfloor>z\<rfloor>" by simp
    with rne_bounds [of y] rne_bounds [of z] show ?thesis by linarith
  qed
qed

lemma pow2_mono: "m \<le> n \<Longrightarrow> (2::real) powi m \<le> 2 powi n"
  by (rule power_int_increasing) simp_all

lemma pow2_less_D: "(2::real) powi m < 2 powi n \<Longrightarrow> m < n"
proof (rule ccontr)
  assume l: "(2::real) powi m < 2 powi n" and "\<not> m < n"
  then have "n \<le> m" by simp
  then have "(2::real) powi n \<le> 2 powi m" by (rule pow2_mono)
  with l show False by linarith
qed

lemma expo_bounds:
  assumes "x \<noteq> 0"
  shows "2 powi expo x \<le> \<bar>x\<bar>" and "\<bar>x\<bar> < 2 powi (expo x + 1)"
proof -
  let ?a = "\<bar>x\<bar>"
  have a: "0 < ?a" using assms by simp
  have "2 powi expo x \<le> ?a \<and> ?a < 2 powi (expo x + 1)"
  proof (cases "1 \<le> ?a")
    case True
    let ?k = "\<lfloor>?a\<rfloor>"
    have k: "0 < ?k" using True by simp
    have e: "expo x = bitlen ?k - 1" using True by (simp add: expo_def Let_def)
    have b1: "1 \<le> bitlen ?k" using k by (simp add: bitlen_alt_def)
    from bitlen_bounds [OF k]
    have lo: "(2::int) ^ nat (bitlen ?k - 1) \<le> ?k" and hi: "?k < 2 ^ nat (bitlen ?k)" by simp_all
    have "(2::real) powi (bitlen ?k - 1) = of_int (2 ^ nat (bitlen ?k - 1))"
      using b1 by (simp add: power_int_nonneg_exp)
    also have "\<dots> \<le> of_int ?k" using lo by (simp only: of_int_le_iff)
    also have "\<dots> \<le> ?a" by simp
    finally have A: "2 powi expo x \<le> ?a" by (simp add: e)
    have "?k + 1 \<le> 2 ^ nat (bitlen ?k)" using hi by simp
    then have "of_int (?k + 1) \<le> (of_int (2 ^ nat (bitlen ?k)) :: real)"
      by (simp only: of_int_le_iff)
    then have h2: "of_int ?k + 1 \<le> (2::real) ^ nat (bitlen ?k)" by simp
    have h1: "?a < of_int ?k + 1" by linarith
    have "(2::real) powi (expo x + 1) = 2 ^ nat (bitlen ?k)"
      using b1 by (simp add: e power_int_nonneg_exp)
    with h1 h2 have "?a < 2 powi (expo x + 1)" by linarith
    with A show ?thesis by simp
  next
    case False
    let ?r = "1 / ?a"
    let ?c = "\<lceil>?r\<rceil>"
    let ?j = "bitlen (?c - 1)"
    have r: "1 < ?r" using False a by simp
    then have c: "0 < ?c - 1" by linarith
    have e: "expo x = - ?j" using False by (simp add: expo_def Let_def)
    have j1: "1 \<le> ?j" using c by (simp add: bitlen_alt_def)
    from bitlen_bounds [OF c]
    have lo: "(2::int) ^ nat (?j - 1) \<le> ?c - 1" and hi: "?c - 1 < 2 ^ nat ?j" by simp_all
    have l1: "of_int (?c - 1) < ?r" by linarith
    have "(of_int (2 ^ nat (?j - 1)) :: real) \<le> of_int (?c - 1)"
      using lo by (simp only: of_int_le_iff)
    then have l2: "(2::real) ^ nat (?j - 1) \<le> of_int (?c - 1)" by simp
    from l1 l2 have rl: "(2::real) ^ nat (?j - 1) < ?r" by linarith
    have "?c \<le> 2 ^ nat ?j" using hi by simp
    then have "(of_int ?c :: real) \<le> of_int (2 ^ nat ?j)" by (simp only: of_int_le_iff)
    then have c1: "(of_int ?c :: real) \<le> 2 ^ nat ?j" by simp
    have c2: "?r \<le> of_int ?c" by linarith
    from c1 c2 have rh: "?r \<le> (2::real) ^ nat ?j" by linarith
    have "(2::real) powi (- ?j) = 1 / 2 ^ nat ?j"
      using j1 by (simp add: power_int_minus_divide power_int_nonneg_exp)
    also have "\<dots> \<le> ?a"
      using rh a by (simp add: field_simps)
    finally have A: "2 powi expo x \<le> ?a" by (simp add: e)
    have lt: "?a < 1 / 2 ^ nat (?j - 1)"
      using rl a by (simp add: field_simps)
    have "(2::real) powi (- (?j - 1)) = 1 / 2 powi (?j - 1)"
      by (rule power_int_minus_divide)
    also have "\<dots> = 1 / 2 ^ nat (?j - 1)"
      using j1 by (simp add: power_int_nonneg_exp)
    finally have pw: "(2::real) powi (- (?j - 1)) = 1 / 2 ^ nat (?j - 1)" .
    have "expo x + 1 = - (?j - 1)" by (simp add: e)
    with lt pw have "?a < 2 powi (expo x + 1)" by simp
    with A show ?thesis by simp
  qed
  then show "2 powi expo x \<le> \<bar>x\<bar>" and "\<bar>x\<bar> < 2 powi (expo x + 1)"
    by simp_all
qed

lemma expo_unique:
  assumes lo: "2 powi e \<le> \<bar>x\<bar>" and hi: "\<bar>x\<bar> < 2 powi (e + 1)"
  shows "expo x = e"
proof -
  have p: "0 < (2::real) powi e" by simp
  have x: "x \<noteq> 0"
  proof
    assume "x = 0"
    with lo have "2 powi e \<le> (0::real)" by simp
    with p show False by linarith
  qed
  from expo_bounds [OF x] lo hi
  have 1: "(2::real) powi expo x < 2 powi (e + 1)" and 2: "(2::real) powi e < 2 powi (expo x + 1)"
    by linarith+
  from pow2_less_D [OF 1] pow2_less_D [OF 2] show ?thesis by simp
qed


lemma ulp64_pos [simp]: "0 < ulp64 x"
  by (simp add: ulp64_def)

lemma rne_0 [simp]: "rne 0 = 0"
  using rne_of_int [of 0] by simp

lemma fl64_0 [simp]: "fl64 0 = 0"
  by (simp add: fl64_def)

lemma fl64_scaled_lower:
  assumes x: "x \<noteq> 0" and k: "of_int k \<le> x / ulp64 x"
  shows "ulp64 x * of_int k \<le> fl64 x"
proof -
  from k have "rne (of_int k) \<le> rne (x / ulp64 x)" by (rule rne_mono)
  then have "k \<le> rne (x / ulp64 x)" by (simp only: rne_of_int)
  then have "(of_int k :: real) \<le> of_int (rne (x / ulp64 x))" by (simp only: of_int_le_iff)
  then have "ulp64 x * of_int k \<le> ulp64 x * of_int (rne (x / ulp64 x))"
    using ulp64_pos [of x] by (simp only: mult_le_cancel_left_pos)
  then show ?thesis using x by (simp only: fl64_def if_False)
qed

lemma fl64_scaled_upper:
  assumes x: "x \<noteq> 0" and k: "x / ulp64 x \<le> of_int k"
  shows "fl64 x \<le> ulp64 x * of_int k"
proof -
  from k have "rne (x / ulp64 x) \<le> rne (of_int k)" by (rule rne_mono)
  then have "rne (x / ulp64 x) \<le> k" by (simp only: rne_of_int)
  then have "(of_int (rne (x / ulp64 x)) :: real) \<le> of_int k" by (simp only: of_int_le_iff)
  then have "ulp64 x * of_int (rne (x / ulp64 x)) \<le> ulp64 x * of_int k"
    using ulp64_pos [of x] by (simp only: mult_le_cancel_left_pos)
  then show ?thesis using x by (simp only: fl64_def if_False)
qed

lemma fl64_nonneg: "0 \<le> x \<Longrightarrow> 0 \<le> fl64 x"
proof (cases "x = 0")
  case True
  then show ?thesis by simp
next
  case False
  assume "0 \<le> x"
  then have "0 \<le> x / ulp64 x" using ulp64_pos [of x] by (rule divide_nonneg_pos)
  then have "of_int 0 \<le> x / ulp64 x" by simp
  from fl64_scaled_lower [OF False this] show ?thesis by simp
qed

lemma fl64_nonpos: "x \<le> 0 \<Longrightarrow> fl64 x \<le> 0"
proof (cases "x = 0")
  case True
  then show ?thesis by simp
next
  case False
  assume "x \<le> 0"
  then have "x / ulp64 x \<le> 0" using ulp64_pos [of x] by (rule divide_nonpos_pos)
  then have "x / ulp64 x \<le> of_int 0" by simp
  from fl64_scaled_upper [OF False this] show ?thesis by simp
qed

lemma pow2_add: "(2::real) powi (m + n) = 2 powi m * 2 powi n"
  by (rule power_int_add) simp

lemma ulp64_scale: "ulp64 x * 2 powi k = 2 powi (max (expo x) (- 1022) - 52 + k)"
  by (simp only: ulp64_def pow2_add)

lemma ulp64_scale52: "ulp64 x * of_int (2 ^ 52) = 2 powi max (expo x) (- 1022)"
proof -
  have "(of_int (2 ^ 52) :: real) = 2 powi 52" by simp
  moreover have "max (expo x) (- 1022) - 52 + 52 = max (expo x) (- 1022)" by simp
  ultimately show ?thesis using ulp64_scale [of x 52] by (simp only:)
qed

lemma ulp64_scale53: "ulp64 x * of_int (2 ^ 53) = 2 powi (max (expo x) (- 1022) + 1)"
proof -
  have "(of_int (2 ^ 53) :: real) = 2 powi 53" by simp
  moreover have "max (expo x) (- 1022) - 52 + 53 = max (expo x) (- 1022) + 1" by simp
  ultimately show ?thesis using ulp64_scale [of x 53] by (simp only:)
qed

lemma fl64_upper:
  assumes x: "0 < x"
  shows "fl64 x \<le> 2 powi (max (expo x) (- 1022) + 1)"
proof -
  let ?e = "max (expo x) (- 1022)"
  let ?u = "ulp64 x"
  have "x < 2 powi (expo x + 1)" using expo_bounds(2) [of x] x by simp
  also have "\<dots> \<le> 2 powi (?e + 1)" by (rule pow2_mono) simp
  also have "\<dots> = ?u * of_int (2 ^ 53)" by (rule ulp64_scale53 [symmetric])
  finally have "x < of_int (2 ^ 53) * ?u" by (simp only: mult.commute)
  then have "x / ?u < of_int (2 ^ 53)"
    using ulp64_pos [of x] by (simp only: pos_divide_less_eq)
  then have "x / ?u \<le> of_int (2 ^ 53)" by (rule less_imp_le)
  from fl64_scaled_upper [OF _ this] x have "fl64 x \<le> ?u * of_int (2 ^ 53)" by simp
  then show ?thesis by (simp only: ulp64_scale53)
qed

lemma fl64_lower:
  assumes x: "0 < x" and n: "- 1022 \<le> expo x"
  shows "2 powi expo x \<le> fl64 x"
proof -
  let ?u = "ulp64 x"
  have e: "max (expo x) (- 1022) = expo x" using n by simp
  have u: "?u * of_int (2 ^ 52) = 2 powi expo x"
    using ulp64_scale52 [of x] by (simp only: e)
  have "2 powi expo x \<le> x" using expo_bounds(1) [of x] x by simp
  then have "of_int (2 ^ 52) * ?u \<le> x" by (simp only: u [symmetric] mult.commute)
  then have "of_int (2 ^ 52) \<le> x / ?u"
    using ulp64_pos [of x] by (simp only: pos_le_divide_eq)
  from fl64_scaled_lower [OF _ this] x have "?u * of_int (2 ^ 52) \<le> fl64 x" by simp
  then show ?thesis by (simp only: u)
qed

lemma expo_mono_pos:
  assumes "0 < x" and "x \<le> y"
  shows "expo x \<le> expo y"
proof -
  have "2 powi expo x \<le> x" using expo_bounds(1) [of x] assms by simp
  also have "\<dots> \<le> y" by fact
  also have "\<dots> < 2 powi (expo y + 1)" using expo_bounds(2) [of y] assms by simp
  finally have "expo x < expo y + 1" by (rule pow2_less_D)
  then show ?thesis by simp
qed

lemma fl64_mono_pos:
  assumes x: "0 < x" and xy: "x \<le> y"
  shows "fl64 x \<le> fl64 y"
proof -
  let ?ex = "max (expo x) (- 1022)"
  let ?ey = "max (expo y) (- 1022)"
  have y: "0 < y" using x xy by simp
  have le: "?ex \<le> ?ey" using expo_mono_pos [OF x xy] by simp
  show ?thesis
  proof (cases "?ex = ?ey")
    case True
    then have u: "ulp64 y = ulp64 x" by (simp add: ulp64_def)
    have "x / ulp64 x \<le> y / ulp64 x"
      using xy less_imp_le [OF ulp64_pos [of x]] by (rule divide_right_mono)
    then have "rne (x / ulp64 x) \<le> rne (y / ulp64 x)" by (rule rne_mono)
    then have "(of_int (rne (x / ulp64 x)) :: real) \<le> of_int (rne (y / ulp64 x))"
      by (simp only: of_int_le_iff)
    then have "ulp64 x * of_int (rne (x / ulp64 x)) \<le> ulp64 x * of_int (rne (y / ulp64 x))"
      by simp
    then show ?thesis using x y by (simp add: fl64_def u)
  next
    case False
    with le have lt: "?ex + 1 \<le> ?ey" by simp
    then have n: "- 1022 \<le> expo y" and ey: "?ey = expo y" by simp_all
    have "fl64 x \<le> 2 powi (?ex + 1)" by (rule fl64_upper [OF x])
    also have "\<dots> \<le> 2 powi ?ey" using lt by (rule pow2_mono)
    also have "\<dots> \<le> fl64 y" using fl64_lower [OF y n] by (simp only: ey)
    finally show ?thesis .
  qed
qed

lemma fl64_1 [simp]: "fl64 1 = 1"
  by code_simp

lemma fl64_ge_1: "1 \<le> x \<Longrightarrow> 1 \<le> fl64 x"
  using fl64_mono_pos [of 1 x] by simp

lemma fl64_le_1: "x \<le> 1 \<Longrightarrow> fl64 x \<le> 1"
proof (cases "0 < x")
  case True
  assume "x \<le> 1"
  with True fl64_mono_pos [of x 1] show ?thesis by simp
next
  case False
  then have "fl64 x \<le> 0" by (simp add: fl64_nonpos)
  then show ?thesis by simp
qed


lemma fl64_exact:
  assumes r: "r \<noteq> 0" and j: "r = ulp64 r * of_int j"
  shows "fl64 r = r"
proof -
  have un: "ulp64 r \<noteq> 0" using ulp64_pos [of r] by linarith
  from j un have "r / ulp64 r = of_int j"
    by (metis nonzero_mult_div_cancel_left)
  then have "rne (r / ulp64 r) = j" by (simp only: rne_of_int)
  then have "fl64 r = ulp64 r * of_int j" using r by (simp only: fl64_def if_False)
  then show ?thesis using j by simp
qed

lemma fl64_idem_pos:
  assumes x: "0 < x"
  shows "fl64 (fl64 x) = fl64 x"
proof -
  let ?e = "max (expo x) (- 1022)"
  let ?r = "fl64 x"
  have x0: "x \<noteq> 0" using x by simp
  have hi: "?r \<le> 2 powi (?e + 1)" by (rule fl64_upper [OF x])
  have nn: "0 \<le> ?r" using x by (simp add: fl64_nonneg)
  show ?thesis
  proof (cases "?r = 0")
    case True
    then show ?thesis by simp
  next
    case False
    with nn have r: "0 < ?r" by simp
    show ?thesis
    proof (cases "?r = 2 powi (?e + 1)")
      case True
      have "2 powi (?e + 1) \<le> \<bar>?r\<bar>" using True by simp
      moreover have "\<bar>?r\<bar> < 2 powi (?e + 1 + 1)"
        using True power_int_strict_increasing [of "?e + 1" "?e + 1 + 1" "2::real"] by simp
      ultimately have er: "expo ?r = ?e + 1" by (rule expo_unique)
      have m: "max (?e + 1) (- 1022) = ?e + 1" by simp
      have "ulp64 ?r * of_int (2 ^ 52) = 2 powi max (expo ?r) (- 1022)"
        by (rule ulp64_scale52)
      also have "\<dots> = 2 powi (?e + 1)" by (simp only: er m)
      also have "\<dots> = ?r" by (rule True [symmetric])
      finally have "?r = ulp64 ?r * of_int (2 ^ 52)" by (rule sym)
      with False show ?thesis by (rule fl64_exact)
    next
      case neq: False
      with hi have lt: "?r < 2 powi (?e + 1)" by simp
      have "2 powi expo ?r \<le> ?r" using expo_bounds(1) [of ?r] r by simp
      with lt have "(2::real) powi expo ?r < 2 powi (?e + 1)" by linarith
      then have le: "expo ?r \<le> ?e" using pow2_less_D [of "expo ?r" "?e + 1"] by simp
      have me: "max (expo ?r) (- 1022) = ?e"
      proof (cases "- 1022 \<le> expo x")
        case True
        then have e: "?e = expo x" by simp
        have "2 powi expo x \<le> ?r" by (rule fl64_lower [OF x True])
        then have "2 powi ?e \<le> \<bar>?r\<bar>" using r by (simp only: e abs_of_pos)
        moreover have "\<bar>?r\<bar> < 2 powi (?e + 1)" using lt r by (simp only: abs_of_pos)
        ultimately have "expo ?r = ?e" by (rule expo_unique)
        then show ?thesis by simp
      next
        case False
        then have "?e = - 1022" by simp
        with le show ?thesis by simp
      qed
      then have u: "ulp64 ?r = ulp64 x" by (simp only: ulp64_def)
      have d: "?r = ulp64 x * of_int (rne (x / ulp64 x))"
        using x0 by (simp only: fl64_def if_False)
      have "?r = ulp64 ?r * of_int (rne (x / ulp64 x))"
        by (rule trans [OF d arg_cong [where f = "\<lambda>w. w * of_int (rne (x / ulp64 x))", OF u [symmetric]]])
      with False show ?thesis by (rule fl64_exact)
    qed
  qed
qed

text \<open>The rounded results that the program prints for four inputs.\<close>

lemma fl64_examples:
  "fl64 (1 / 5) = 3602879701896397 / 2 ^ 54"
  "fl64 (1 / 10) = 3602879701896397 / 2 ^ 55"
  "fl64 (1 + 1 / 2 ^ 53) = 1"
  "fl64 (1 + 3 / 2 ^ 53) = 1 + 1 / 2 ^ 51"
  by code_simp+

subsection \<open>Monotonicity of the adaptive update in double precision\<close>

lemma update64_Inr:
  assumes "update64 (Adaptive v tgt hor) current n_steps = Inr c"
  shows "c = Adaptive
               (fl64 (v * fl64 (1 + fl64 (fl64 (np_clip (fl64 (fl64 (current / tgt) - 1))
                                                  (- fl64 0.2) (fl64 0.2) * n_steps) / hor))))
               tgt hor"
  using assms by (auto simp: op64_def Let_def split: if_splits)

lemma fl64_le_pos:
  assumes v: "0 < v" and r: "fl64 v = v" and x: "x \<le> v"
  shows "fl64 x \<le> v"
proof (cases "0 < x")
  case True
  from fl64_mono_pos [OF True x] show ?thesis by (simp only: r)
next
  case False
  then have "fl64 x \<le> 0" by (simp add: fl64_nonpos)
  with v show ?thesis by simp
qed

lemma fl64_ge_pos:
  assumes v: "0 < v" and r: "fl64 v = v" and x: "v \<le> x"
  shows "v \<le> fl64 x"
  using fl64_mono_pos [OF v x] by (simp only: r)

text \<open>The multiplier in double precision, by the sign of the feedback error.\<close>

lemma mult64_ge:
  assumes "0 < tgt" and "0 < hor" and "0 < n" and "tgt \<le> cur"
  shows "1 \<le> fl64 (1 + fl64 (fl64 (np_clip (fl64 (fl64 (cur / tgt) - 1))
                                      (- fl64 0.2) (fl64 0.2) * n) / hor))"
proof -
  have c: "0 \<le> fl64 0.2" by (rule fl64_nonneg) simp
  have "1 \<le> cur / tgt" using assms by simp
  then have "1 \<le> fl64 (cur / tgt)" by (rule fl64_ge_1)
  then have "0 \<le> fl64 (fl64 (cur / tgt) - 1)" by (intro fl64_nonneg) simp
  then have "0 \<le> np_clip (fl64 (fl64 (cur / tgt) - 1)) (- fl64 0.2) (fl64 0.2)"
    using c by (simp add: np_clip_def)
  then have "0 \<le> np_clip (fl64 (fl64 (cur / tgt) - 1)) (- fl64 0.2) (fl64 0.2) * n"
    using assms(3) by simp
  then have "0 \<le> fl64 (np_clip (fl64 (fl64 (cur / tgt) - 1)) (- fl64 0.2) (fl64 0.2) * n)"
    by (rule fl64_nonneg)
  then have "0 \<le> fl64 (np_clip (fl64 (fl64 (cur / tgt) - 1)) (- fl64 0.2) (fl64 0.2) * n) / hor"
    using assms(2) by simp
  then have "0 \<le> fl64 (fl64 (np_clip (fl64 (fl64 (cur / tgt) - 1)) (- fl64 0.2) (fl64 0.2) * n) / hor)"
    by (rule fl64_nonneg)
  then show ?thesis by (intro fl64_ge_1) simp
qed

lemma mult64_le:
  assumes "0 < tgt" and "0 < hor" and "0 < n" and "cur \<le> tgt"
  shows "fl64 (1 + fl64 (fl64 (np_clip (fl64 (fl64 (cur / tgt) - 1))
                                 (- fl64 0.2) (fl64 0.2) * n) / hor)) \<le> 1"
proof -
  have c: "0 \<le> fl64 0.2" by (rule fl64_nonneg) simp
  have "cur / tgt \<le> 1" using assms by simp
  then have "fl64 (cur / tgt) \<le> 1" by (rule fl64_le_1)
  then have "fl64 (fl64 (cur / tgt) - 1) \<le> 0" by (intro fl64_nonpos) simp
  then have "np_clip (fl64 (fl64 (cur / tgt) - 1)) (- fl64 0.2) (fl64 0.2) \<le> 0"
    using c by (simp add: np_clip_def)
  then have "np_clip (fl64 (fl64 (cur / tgt) - 1)) (- fl64 0.2) (fl64 0.2) * n \<le> 0"
    using assms(3) by (simp add: mult_nonpos_nonneg)
  then have "fl64 (np_clip (fl64 (fl64 (cur / tgt) - 1)) (- fl64 0.2) (fl64 0.2) * n) \<le> 0"
    by (rule fl64_nonpos)
  then have "fl64 (np_clip (fl64 (fl64 (cur / tgt) - 1)) (- fl64 0.2) (fl64 0.2) * n) / hor \<le> 0"
    using assms(2) by (simp add: divide_nonpos_pos)
  then have "fl64 (fl64 (np_clip (fl64 (fl64 (cur / tgt) - 1)) (- fl64 0.2) (fl64 0.2) * n) / hor) \<le> 0"
    by (rule fl64_nonpos)
  then show ?thesis by (intro fl64_le_1) simp
qed

lemma update64_step:
  assumes v: "0 < v" and r: "fl64 v = v" and t: "0 < tgt" and h: "0 < hor" and n: "0 < n_steps"
    and u: "update64 (Adaptive v tgt hor) current n_steps = Inr c"
  shows "target c = tgt \<and> horizon c = hor \<and>
         value' c =
           fl64 (v * fl64 (1 + fl64 (fl64 (np_clip (fl64 (fl64 (current / tgt) - 1))
                                             (- fl64 0.2) (fl64 0.2) * n_steps) / hor))) \<and>
         (tgt \<le> current \<longrightarrow> v \<le> value' c \<and> fl64 (value' c) = value' c) \<and>
         (current \<le> tgt \<longrightarrow> value' c \<le> v)"
proof -
  let ?m = "fl64 (1 + fl64 (fl64 (np_clip (fl64 (fl64 (current / tgt) - 1))
                                    (- fl64 0.2) (fl64 0.2) * n_steps) / hor))"
  have c: "c = Adaptive (fl64 (v * ?m)) tgt hor" by (rule update64_Inr [OF u])
  have up: "v \<le> fl64 (v * ?m) \<and> fl64 (fl64 (v * ?m)) = fl64 (v * ?m)" if "tgt \<le> current"
  proof -
    have "1 \<le> ?m" by (rule mult64_ge [OF t h n that])
    then have vm: "v \<le> v * ?m" using v by simp
    then have "0 < v * ?m" using v by linarith
    then have "fl64 (fl64 (v * ?m)) = fl64 (v * ?m)" by (rule fl64_idem_pos)
    with fl64_ge_pos [OF v r vm] show ?thesis by simp
  qed
  have down: "fl64 (v * ?m) \<le> v" if "current \<le> tgt"
  proof -
    have "?m \<le> 1" by (rule mult64_le [OF t h n that])
    then have "v * ?m \<le> v" using v by simp
    then show ?thesis by (rule fl64_le_pos [OF v r])
  qed
  from up down show ?thesis by (simp add: c)
qed


lemma updates64_above:
  "0 < v \<Longrightarrow> fl64 v = v \<Longrightarrow> 0 < tgt \<Longrightarrow> 0 < hor \<Longrightarrow> 0 < n_steps \<Longrightarrow> tgt \<le> current \<Longrightarrow>
   updates64 (Adaptive v tgt hor) (replicate k (current, n_steps)) = Inr c \<Longrightarrow>
   \<exists>w. c = Adaptive w tgt hor \<and> v \<le> w \<and> fl64 w = w \<and> (current = tgt \<longrightarrow> w = v)"
proof (induction k arbitrary: v)
  case 0
  then show ?case by auto
next
  case (Suc k)
  from Suc.prems(7) obtain c' where
    u: "update64 (Adaptive v tgt hor) current n_steps = Inr c'"
    and r: "updates64 c' (replicate k (current, n_steps)) = Inr c"
    by (auto split: sum.splits)
  let ?w = "fl64 (v * fl64 (1 + fl64 (fl64 (np_clip (fl64 (fl64 (current / tgt) - 1))
                                             (- fl64 0.2) (fl64 0.2) * n_steps) / hor)))"
  have c': "c' = Adaptive ?w tgt hor" by (rule update64_Inr [OF u])
  from update64_step [OF Suc.prems(1-5) u] Suc.prems(6)
  have ge: "v \<le> ?w" and id: "fl64 ?w = ?w" and eq: "current = tgt \<longrightarrow> ?w = v"
    by (auto simp: c')
  from ge Suc.prems(1) have pos: "0 < ?w" by linarith
  from Suc.IH [OF pos id Suc.prems(3-6) r [unfolded c']]
  obtain w where "c = Adaptive w tgt hor" and "?w \<le> w" and "fl64 w = w"
    and "current = tgt \<longrightarrow> w = ?w"
    by blast
  with ge eq show ?case by auto
qed

text \<open>
  C5 (as amended). In the double-precision arithmetic of the program, for an adaptive
  controller whose value, target and horizon are positive and a positive \<open>n_steps\<close>:
  a call of \<open>update\<close> that returns a finite value multiplies \<open>value\<close> by the multiplier
  \<open>1 + clip(current / target - 1, -0.2, 0.2) * n_steps / horizon\<close>, every operation
  rounded; the new value is not smaller than the old one when \<open>current > target\<close>, not
  larger when \<open>current < target\<close>, and the same when \<open>current = target\<close>. When
  \<open>current \<ge> target\<close> this holds for each of any number of successive calls with the
  same arguments.
\<close>

theorem C5_adaptive_update_monotone:
  assumes "0 < v" and "fl64 v = v" and "0 < tgt" and "0 < hor" and "0 < n_steps"
  shows "(update64 (Adaptive v tgt hor) current n_steps = Inr c \<longrightarrow>
            target c = tgt \<and> horizon c = hor \<and>
            value' c =
              fl64 (v * fl64 (1 + fl64 (fl64 (np_clip (fl64 (fl64 (current / tgt) - 1))
                                                (- fl64 0.2) (fl64 0.2) * n_steps) / hor))) \<and>
            (tgt < current \<longrightarrow> v \<le> value' c) \<and>
            (current < tgt \<longrightarrow> value' c \<le> v) \<and>
            (current = tgt \<longrightarrow> value' c = v)) \<and>
         (tgt \<le> current \<and>
          updates64 (Adaptive v tgt hor) (replicate k (current, n_steps)) = Inr c1 \<and>
          update64 c1 current n_steps = Inr c2 \<longrightarrow>
            v \<le> value' c1 \<and> value' c1 \<le> value' c2 \<and>
            (current = tgt \<longrightarrow> value' c2 = value' c1))"
proof (intro conjI impI)
  assume u: "update64 (Adaptive v tgt hor) current n_steps = Inr c"
  note s = update64_step [OF assms u]
  from s show "target c = tgt" and "horizon c = hor" by simp_all
  from s show "value' c =
              fl64 (v * fl64 (1 + fl64 (fl64 (np_clip (fl64 (fl64 (current / tgt) - 1))
                                                (- fl64 0.2) (fl64 0.2) * n_steps) / hor)))"
    by simp
  show "v \<le> value' c" if "tgt < current" using s that by simp
  show "value' c \<le> v" if "current < tgt" using s that by simp
  show "value' c = v" if "current = tgt" using s that by simp
next
  assume a: "tgt \<le> current \<and>
          updates64 (Adaptive v tgt hor) (replicate k (current, n_steps)) = Inr c1 \<and>
          update64 c1 current n_steps = Inr c2"
  then have le: "tgt \<le> current"
    and r: "updates64 (Adaptive v tgt hor) (replicate k (current, n_steps)) = Inr c1"
    and u: "update64 c1 current n_steps = Inr c2"
    by simp_all
  from updates64_above [OF assms le r] obtain w where
    c1: "c1 = Adaptive w tgt hor" and vw: "v \<le> w" and id: "fl64 w = w"
    by blast
  from vw assms(1) have pos: "0 < w" by linarith
  note s = update64_step [OF pos id assms(3-5) u [unfolded c1]]
  show "v \<le> value' c1" using vw by (simp add: c1)
  show "value' c1 \<le> value' c2" using s le by (simp add: c1)
  show "value' c2 = value' c1" if "current = tgt" using s that by (simp add: c1)
qed

text \<open>
  A call of \<open>update\<close> in double precision, from the results of its seven operations.
\<close>

lemma update64_chain:
  assumes "tgt \<noteq> 0" and "hor \<noteq> 0"
    and "fl64 (current / tgt) = q" and "finite64 q"
    and "fl64 (q - 1) = d" and "finite64 d"
    and "fl64 0.2 = c" and "np_clip d (- c) c = pe"
    and "fl64 (pe * n_steps) = a" and "finite64 a"
    and "fl64 (a / hor) = b" and "finite64 b"
    and "fl64 (1 + b) = m" and "finite64 m"
    and "fl64 (v * m) = w" and "finite64 w"
  shows "update64 (Adaptive v tgt hor) current n_steps = Inr (Adaptive w tgt hor)"
  using assms by (simp add: op64_def Let_def)

lemma update64_above:
  "update64 (Adaptive 1 6 10000) 12 256 = Inr (Adaptive (4526658057462633 / 2 ^ 52) 6 10000)"
proof (rule update64_chain [where q = "2" and d = "1" and c = "3602879701896397 / 2 ^ 54"
      and pe = "3602879701896397 / 2 ^ 54" and a = "3602879701896397 / 2 ^ 46" and b = "5902958103587057 / 2 ^ 60" and m = "4526658057462633 / 2 ^ 52"])
  show "fl64 (12 / 6) = 2" by code_simp
  show "fl64 (2 - 1) = 1" by code_simp
  show "fl64 0.2 = 3602879701896397 / 2 ^ 54" by code_simp
  show "fl64 (3602879701896397 / 2 ^ 54 * 256) = 3602879701896397 / 2 ^ 46" by code_simp
  show "fl64 (3602879701896397 / 2 ^ 46 / 10000) = 5902958103587057 / 2 ^ 60" by code_simp
  show "fl64 (1 + 5902958103587057 / 2 ^ 60) = 4526658057462633 / 2 ^ 52" by code_simp
  show "fl64 (1 * (4526658057462633 / 2 ^ 52)) = 4526658057462633 / 2 ^ 52" by code_simp
qed (simp_all add: finite64_def np_clip_def)

lemma update64_below:
  "update64 (Adaptive 1 6 10000) 3 256 = Inr (Adaptive (4480541197278359 / 2 ^ 52) 6 10000)"
proof (rule update64_chain [where q = "1 / 2 ^ 1" and d = "- (1 / 2 ^ 1)" and c = "3602879701896397 / 2 ^ 54"
      and pe = "- (3602879701896397 / 2 ^ 54)" and a = "- (3602879701896397 / 2 ^ 46)" and b = "- (5902958103587057 / 2 ^ 60)" and m = "4480541197278359 / 2 ^ 52"])
  show "fl64 (3 / 6) = 1 / 2 ^ 1" by code_simp
  show "fl64 (1 / 2 ^ 1 - 1) = - (1 / 2 ^ 1)" by code_simp
  show "fl64 0.2 = 3602879701896397 / 2 ^ 54" by code_simp
  show "fl64 (- (3602879701896397 / 2 ^ 54) * 256) = - (3602879701896397 / 2 ^ 46)" by code_simp
  show "fl64 (- (3602879701896397 / 2 ^ 46) / 10000) = - (5902958103587057 / 2 ^ 60)" by code_simp
  show "fl64 (1 + - (5902958103587057 / 2 ^ 60)) = 4480541197278359 / 2 ^ 52" by code_simp
  show "fl64 (1 * (4480541197278359 / 2 ^ 52)) = 4480541197278359 / 2 ^ 52" by code_simp
qed (simp_all add: finite64_def np_clip_def)

lemma update64_at_target:
  "update64 (Adaptive 1 6 10000) 6 256 = Inr (Adaptive 1 6 10000)"
proof (rule update64_chain [where q = "1" and d = "0" and c = "3602879701896397 / 2 ^ 54"
      and pe = "0" and a = "0" and b = "0" and m = "1"])
  show "fl64 (6 / 6) = 1" by code_simp
  show "fl64 (1 - 1) = 0" by code_simp
  show "fl64 0.2 = 3602879701896397 / 2 ^ 54" by code_simp
  show "fl64 (0 * 256) = 0" by code_simp
  show "fl64 (0 / 10000) = 0" by code_simp
  show "fl64 (1 + 0) = 1" by code_simp
  show "fl64 (1 * 1) = 1" by code_simp
qed (simp_all add: finite64_def np_clip_def)

lemma update64_negative_target:
  "update64 (Adaptive 1 (- 1) 1) 0 1 = Inr (Adaptive (3602879701896397 / 2 ^ 52) (- 1) 1)"
proof (rule update64_chain [where q = "0" and d = "- 1" and c = "3602879701896397 / 2 ^ 54"
      and pe = "- (3602879701896397 / 2 ^ 54)" and a = "- (3602879701896397 / 2 ^ 54)" and b = "- (3602879701896397 / 2 ^ 54)" and m = "3602879701896397 / 2 ^ 52"])
  show "fl64 (0 / (- 1)) = 0" by code_simp
  show "fl64 (0 - 1) = - 1" by code_simp
  show "fl64 0.2 = 3602879701896397 / 2 ^ 54" by code_simp
  show "fl64 (- (3602879701896397 / 2 ^ 54) * 1) = - (3602879701896397 / 2 ^ 54)" by code_simp
  show "fl64 (- (3602879701896397 / 2 ^ 54) / 1) = - (3602879701896397 / 2 ^ 54)" by code_simp
  show "fl64 (1 + - (3602879701896397 / 2 ^ 54)) = 3602879701896397 / 2 ^ 52" by code_simp
  show "fl64 (1 * (3602879701896397 / 2 ^ 52)) = 3602879701896397 / 2 ^ 52" by code_simp
qed (simp_all add: finite64_def np_clip_def)

lemma update64_rounds_to_one:
  "update64 (Adaptive 1 6 10000) (6 + 1 / 2 ^ 50) 256 = Inr (Adaptive 1 6 10000)"
proof (rule update64_chain [where q = "4503599627370497 / 2 ^ 52" and d = "1 / 2 ^ 52" and c = "3602879701896397 / 2 ^ 54"
      and pe = "1 / 2 ^ 52" and a = "1 / 2 ^ 44" and b = "7378697629483821 / 2 ^ 110" and m = "1"])
  show "fl64 ((6 + 1 / 2 ^ 50) / 6) = 4503599627370497 / 2 ^ 52" by code_simp
  show "fl64 (4503599627370497 / 2 ^ 52 - 1) = 1 / 2 ^ 52" by code_simp
  show "fl64 0.2 = 3602879701896397 / 2 ^ 54" by code_simp
  show "fl64 (1 / 2 ^ 52 * 256) = 1 / 2 ^ 44" by code_simp
  show "fl64 (1 / 2 ^ 44 / 10000) = 7378697629483821 / 2 ^ 110" by code_simp
  show "fl64 (1 + 7378697629483821 / 2 ^ 110) = 1" by code_simp
  show "fl64 (1 * 1) = 1" by code_simp
qed (simp_all add: finite64_def np_clip_def)

lemma update64_flips_sign:
  "update64 (Adaptive 1 1 1) (1 / 2) 10 = Inr (Adaptive (- 1) 1 1)"
proof (rule update64_chain [where q = "1 / 2 ^ 1" and d = "- (1 / 2 ^ 1)" and c = "3602879701896397 / 2 ^ 54"
      and pe = "- (3602879701896397 / 2 ^ 54)" and a = "- 2" and b = "- 2" and m = "- 1"])
  show "fl64 ((1 / 2) / 1) = 1 / 2 ^ 1" by code_simp
  show "fl64 (1 / 2 ^ 1 - 1) = - (1 / 2 ^ 1)" by code_simp
  show "fl64 0.2 = 3602879701896397 / 2 ^ 54" by code_simp
  show "fl64 (- (3602879701896397 / 2 ^ 54) * 10) = - 2" by code_simp
  show "fl64 (- 2 / 1) = - 2" by code_simp
  show "fl64 (1 + - 2) = - 1" by code_simp
  show "fl64 (1 * (- 1)) = - 1" by code_simp
qed (simp_all add: finite64_def np_clip_def)

lemma update64_flips_back:
  "update64 (Adaptive (- 1) 1 1) (1 / 2) 10 = Inr (Adaptive 1 1 1)"
proof (rule update64_chain [where q = "1 / 2 ^ 1" and d = "- (1 / 2 ^ 1)" and c = "3602879701896397 / 2 ^ 54"
      and pe = "- (3602879701896397 / 2 ^ 54)" and a = "- 2" and b = "- 2" and m = "- 1"])
  show "fl64 ((1 / 2) / 1) = 1 / 2 ^ 1" by code_simp
  show "fl64 (1 / 2 ^ 1 - 1) = - (1 / 2 ^ 1)" by code_simp
  show "fl64 0.2 = 3602879701896397 / 2 ^ 54" by code_simp
  show "fl64 (- (3602879701896397 / 2 ^ 54) * 10) = - 2" by code_simp
  show "fl64 (- 2 / 1) = - 2" by code_simp
  show "fl64 (1 + - 2) = - 1" by code_simp
  show "fl64 ((- 1) * (- 1)) = 1" by code_simp
qed (simp_all add: finite64_def np_clip_def)

lemma update64_above_again:
  "update64 (Adaptive (4526658057462633 / 2 ^ 52) 6 10000) 12 256 = Inr (Adaptive (2274917273358421 / 2 ^ 51) 6 10000)"
proof (rule update64_chain [where q = "2" and d = "1" and c = "3602879701896397 / 2 ^ 54"
      and pe = "3602879701896397 / 2 ^ 54" and a = "3602879701896397 / 2 ^ 46" and b = "5902958103587057 / 2 ^ 60" and m = "4526658057462633 / 2 ^ 52"])
  show "fl64 (12 / 6) = 2" by code_simp
  show "fl64 (2 - 1) = 1" by code_simp
  show "fl64 0.2 = 3602879701896397 / 2 ^ 54" by code_simp
  show "fl64 (3602879701896397 / 2 ^ 54 * 256) = 3602879701896397 / 2 ^ 46" by code_simp
  show "fl64 (3602879701896397 / 2 ^ 46 / 10000) = 5902958103587057 / 2 ^ 60" by code_simp
  show "fl64 (1 + 5902958103587057 / 2 ^ 60) = 4526658057462633 / 2 ^ 52" by code_simp
  show "fl64 ((4526658057462633 / 2 ^ 52) * (4526658057462633 / 2 ^ 52)) = 2274917273358421 / 2 ^ 51" by code_simp
qed (simp_all add: finite64_def np_clip_def)

text \<open>
  The theorem at the controller \<open>(1, 6, 10000)\<close> with \<open>n_steps = 256\<close>: for the observed
  KL 12 the new value is the double \<open>1.00512\<close>, for 3 the double \<open>0.99488\<close>, for 6 the
  value stays 1, and a second call with the observed KL 12 gives the double
  \<open>1.0102662144\<close>, not smaller than the first.
\<close>

theorem C5_witness:
  "update64 (Adaptive 1 6 10000) 12 256 = Inr (Adaptive (4526658057462633 / 2 ^ 52) 6 10000) \<and>
   (1::real) \<le> 4526658057462633 / 2 ^ 52 \<and>
   update64 (Adaptive 1 6 10000) 3 256 = Inr (Adaptive (4480541197278359 / 2 ^ 52) 6 10000) \<and>
   4480541197278359 / 2 ^ 52 \<le> (1::real) \<and>
   update64 (Adaptive 1 6 10000) 6 256 = Inr (Adaptive 1 6 10000) \<and>
   update64 (Adaptive (4526658057462633 / 2 ^ 52) 6 10000) 12 256 =
     Inr (Adaptive (2274917273358421 / 2 ^ 51) 6 10000) \<and>
   (4526658057462633 / 2 ^ 52 :: real) \<le> 2274917273358421 / 2 ^ 51"
proof -
  have p: "(0::real) < 1" "fl64 1 = 1" "(0::real) < 6" "(0::real) < 10000" "(0::real) < 256"
    by simp_all
  have r: "updates64 (Adaptive 1 6 10000) (replicate (Suc 0) (12, 256)) =
             Inr (Adaptive (4526658057462633 / 2 ^ 52) 6 10000)"
    by (simp add: update64_above del: update64.simps)
  have a: "(1::real) \<le> 4526658057462633 / 2 ^ 52"
    using C5_adaptive_update_monotone [OF p, where current = 12
        and c = "Adaptive (4526658057462633 / 2 ^ 52) 6 10000"] update64_above
    by (simp del: update64.simps)
  have b: "4480541197278359 / 2 ^ 52 \<le> (1::real)"
    using C5_adaptive_update_monotone [OF p, where current = 3
        and c = "Adaptive (4480541197278359 / 2 ^ 52) 6 10000"] update64_below
    by (simp del: update64.simps)
  have c: "(4526658057462633 / 2 ^ 52 :: real) \<le> 2274917273358421 / 2 ^ 51"
    using C5_adaptive_update_monotone [OF p, where current = 12 and k = "Suc 0"
        and ?c1.0 = "Adaptive (4526658057462633 / 2 ^ 52) 6 10000"
        and ?c2.0 = "Adaptive (2274917273358421 / 2 ^ 51) 6 10000"] r update64_above_again
    by (simp del: update64.simps)
  from update64_above a update64_below b update64_at_target update64_above_again c
  show ?thesis by blast
qed

text \<open>
  C5 as stated fails in three ways. It asks nothing of the target: with target \<open>-1\<close> and
  \<open>current = 0\<close>, above the target, the value 1 goes down to the double \<open>0.8\<close>. Its
  inequalities are strict: with value 1, target 6, horizon 10000, \<open>n_steps = 256\<close> and
  \<open>current\<close> the double next above 6, the multiplier rounds to 1 and the value stays 1.
  It speaks of successive calls: with value 1, target 1, horizon 1, \<open>n_steps = 10\<close> and
  \<open>current = 1/2\<close>, below the target, the multiplier is \<open>-1\<close>, so the first call gives
  \<open>-1\<close> and the second goes back up to 1.
\<close>

theorem C5_counterexample:
  "(- 1 :: real) < 0 \<and>
   update64 (Adaptive 1 (- 1) 1) 0 1 = Inr (Adaptive (3602879701896397 / 2 ^ 52) (- 1) 1) \<and>
   3602879701896397 / 2 ^ 52 < (1::real) \<and>
   (6::real) < 6 + 1 / 2 ^ 50 \<and>
   update64 (Adaptive 1 6 10000) (6 + 1 / 2 ^ 50) 256 = Inr (Adaptive 1 6 10000) \<and>
   (1 / 2 :: real) < 1 \<and>
   update64 (Adaptive 1 1 1) (1 / 2) 10 = Inr (Adaptive (- 1) 1 1) \<and>
   update64 (Adaptive (- 1) 1 1) (1 / 2) 10 = Inr (Adaptive 1 1 1) \<and>
   updates64 (Adaptive 1 1 1) [(1 / 2, 10), (1 / 2, 10)] = Inr (Adaptive 1 1 1)"
proof -
  have s: "updates64 (Adaptive 1 1 1) [(1 / 2, 10), (1 / 2, 10)] = Inr (Adaptive 1 1 1)"
    by (simp add: update64_flips_sign update64_flips_back del: update64.simps)
  have n: "(- 1 :: real) < 0" "3602879701896397 / 2 ^ 52 < (1::real)"
    "(6::real) < 6 + 1 / 2 ^ 50" "(1 / 2 :: real) < 1"
    by simp_all
  from n update64_negative_target update64_rounds_to_one update64_flips_sign
    update64_flips_back s
  show ?thesis by blast
qed

text \<open>
  C6 as stated fails: construction with a zero target, with a negative horizon and
  with a zero horizon returns a controller and raises nothing.
\<close>

theorem C6_counterexample:
  "AdaptiveKLController_init (1/5) 0 10000 = Inr (Adaptive (1/5) 0 10000) \<and>
   AdaptiveKLController_init (1/5) 6 (-1) = Inr (Adaptive (1/5) 6 (-1)) \<and>
   AdaptiveKLController_init (1/5) 6 0 = Inr (Adaptive (1/5) 6 0)"
  by (simp add: AdaptiveKLController_init_def)

text \<open>
  C6 (as amended). Constructing an adaptive controller never raises: every
  \<open>init_kl_coef\<close>, target and horizon is accepted and stored as given. With a zero
  target the failure comes at the first \<open>update\<close> call, as a \<open>ZeroDivisionError\<close>.
\<close>

theorem C6_init_accepts_everything:
  "AdaptiveKLController_init coef tgt hor = Inr (Adaptive coef tgt hor) \<and>
   update (Adaptive coef 0 hor) current n_steps = Inl ZeroDivisionError"
  by (simp add: AdaptiveKLController_init_def)

section \<open>Properties of the advantage estimation\<close>

declare gae_spec.simps [simp del]

lemma rect_length: "rect B T m \<Longrightarrow> length m = B"
  by (simp add: rect_def)

lemma rect_row: "rect B T m \<Longrightarrow> b < B \<Longrightarrow> length (m ! b) = T"
  by (simp add: rect_def list_all_length)

lemma rectI: "length m = B \<Longrightarrow> (\<And>b. b < B \<Longrightarrow> length (m ! b) = T) \<Longrightarrow> rect B T m"
  by (simp add: rect_def list_all_length)

lemma length_col [simp]: "length (col m t) = length m"
  by (simp add: col_def)

lemma nth_col [simp]: "b < length m \<Longrightarrow> col m t ! b = m ! b ! t"
  by (simp add: col_def)

lemma length_vmap2 [simp]: "length (vmap2 f xs ys) = min (length xs) (length ys)"
  by (simp add: vmap2_def)

lemma nth_vmap2 [simp]:
  "i < length xs \<Longrightarrow> i < length ys \<Longrightarrow> vmap2 f xs ys ! i = f (xs ! i) (ys ! i)"
  by (simp add: vmap2_def)

lemma length_smul [simp]: "length (smul a xs) = length xs"
  by (simp add: smul_def)

lemma nth_smul [simp]: "i < length xs \<Longrightarrow> smul a xs ! i = a * xs ! i"
  by (simp add: smul_def)

lemma length_tmap2 [simp]: "length (tmap2 f a b) = min (length a) (length b)"
  by (simp add: tmap2_def)

lemma nth_tmap2 [simp]:
  "i < length a \<Longrightarrow> i < length b \<Longrightarrow> tmap2 f a b ! i = vmap2 f (a ! i) (b ! i)"
  by (simp add: tmap2_def)

lemma gae_vec_end: "gae_vec m T V R T = replicate (length V) 0"
  by (simp add: gae_vec_def gae_spec.simps [of _ _ _ _ T T] map_replicate_const)

lemma gae_step_vec:
  assumes V: "rect B T V" and R: "rect B T R" and k: "k < T"
  shows "gae_step m T V R (gae_vec m T V R (Suc k), advs) k =
           (gae_vec m T V R k, advs @ [gae_vec m T V R k])"
proof -
  have lV: "length V = B" and lR: "length R = B"
    using V R by (simp_all add: rect_length)
  let ?next = "if int k < int T - 1 then col V (k + 1) else replicate (length V) 0"
  let ?new = "vmap2 (+) (vmap2 (-) (vmap2 (+) (col R k) (smul (gamma m) ?next)) (col V k))
                (smul (gamma m * lam m) (gae_vec m T V R (Suc k)))"
  have len: "length ?new = B"
    by (simp add: lV lR gae_vec_def)
  have "?new = gae_vec m T V R k"
  proof (rule nth_equalityI)
    show "length ?new = length (gae_vec m T V R k)"
      by (simp add: gae_vec_def lV lR)
  next
    fix b assume "b < length ?new"
    then have b: "b < B" by (simp only: len)
    have "gae_spec (gamma m) (lam m) (V ! b) (R ! b) T k =
            R ! b ! k + gamma m * (if int k < int T - 1 then V ! b ! (k + 1) else 0) - V ! b ! k
            + gamma m * lam m * gae_spec (gamma m) (lam m) (V ! b) (R ! b) T (Suc k)"
      using k by (subst gae_spec.simps) (simp add: Let_def)
    then show "?new ! b = gae_vec m T V R k ! b"
      using b by (simp add: lV lR gae_vec_def)
  qed
  then show ?thesis
    by (simp add: gae_step_def Let_def)
qed

lemma gae_loop:
  assumes V: "rect B T V" and R: "rect B T R"
  shows "k \<le> T \<Longrightarrow>
         foldl (gae_step m T V R) (replicate (length V) 0, []) (rev [T - k..<T]) =
           (gae_vec m T V R (T - k), map (gae_vec m T V R) (rev [T - k..<T]))"
proof (induction k)
  case 0
  then show ?case by (simp add: gae_vec_end)
next
  case (Suc k)
  then have k: "T - Suc k < T" and S: "Suc (T - Suc k) = T - k" by simp_all
  have "[T - Suc k..<T] = (T - Suc k) # [T - k..<T]"
    using k S by (simp add: upt_conv_Cons)
  then show ?case
    using Suc gae_step_vec [OF V R k, of m] by (simp add: S)
qed

lemma gae_eq:
  assumes V: "rect B T V" and R: "rect B T R" and T: "1 \<le> T"
  shows "gae m T V R =
           Inr (map (\<lambda>b. map (\<lambda>t. gae_spec (gamma m) (lam m) (V ! b) (R ! b) T t) [0..<T]) [0..<B],
                tmap2 (+)
                  (map (\<lambda>b. map (\<lambda>t. gae_spec (gamma m) (lam m) (V ! b) (R ! b) T t) [0..<T]) [0..<B])
                  V)"
proof -
  have lV: "length V = B" using V by (simp add: rect_length)
  have loop: "foldl (gae_step m T V R) (replicate (length V) 0, []) (rev [0..<T]) =
                (gae_vec m T V R 0, map (gae_vec m T V R) (rev [0..<T]))"
    using gae_loop [OF V R, of T m] by simp
  have ne: "map (gae_vec m T V R) (rev [0..<T]) \<noteq> []"
    using T by simp
  have hd: "hd (map (gae_vec m T V R) [0..<T]) = gae_vec m T V R 0"
    using T by (simp add: hd_map upt_conv_Cons)
  have st: "stack_transpose (map (gae_vec m T V R) [0..<T]) =
              map (\<lambda>b. map (\<lambda>t. gae_spec (gamma m) (lam m) (V ! b) (R ! b) T t) [0..<T]) [0..<B]"
    by (simp add: stack_transpose_def hd gae_vec_def lV)
  show ?thesis
    using ne by (simp add: gae_def loop Let_def rev_map [symmetric] st)
qed

text \<open>
  C1. For values and rewards of shape \<open>[B, T]\<close> with \<open>T \<ge> 1\<close>, the advantage block of
  \<open>loss\<close> returns normally; entry \<open>[b, t]\<close> of the raw advantages is the value of the
  backward GAE recurrence of batch element \<open>b\<close> at \<open>t\<close>, and every entry of the returns
  is the raw advantage plus the value at the same place.
\<close>

theorem C1_gae_recurrence_and_returns:
  assumes "rect B T all_values" and "rect B T all_rewards" and "1 \<le> T"
  shows "\<exists>advantages returns.
           gae m T all_values all_rewards = Inr (advantages, returns) \<and>
           rect B T advantages \<and> rect B T returns \<and>
           (\<forall>b<B. \<forall>t<T.
              advantages ! b ! t =
                gae_spec (gamma m) (lam m) (all_values ! b) (all_rewards ! b) T t \<and>
              returns ! b ! t = advantages ! b ! t + all_values ! b ! t)"
proof -
  let ?adv = "map (\<lambda>b. map (\<lambda>t. gae_spec (gamma m) (lam m) (all_values ! b) (all_rewards ! b) T t)
                [0..<T]) [0..<B]"
  have lV: "length all_values = B" using assms(1) by (simp add: rect_length)
  have g: "gae m T all_values all_rewards = Inr (?adv, tmap2 (+) ?adv all_values)"
    by (rule gae_eq [OF assms])
  have ra: "rect B T ?adv"
    by (rule rectI) simp_all
  have rr: "rect B T (tmap2 (+) ?adv all_values)"
    by (rule rectI) (simp_all add: lV rect_row [OF assms(1)])
  have pt: "\<forall>b<B. \<forall>t<T.
              ?adv ! b ! t = gae_spec (gamma m) (lam m) (all_values ! b) (all_rewards ! b) T t \<and>
              tmap2 (+) ?adv all_values ! b ! t = ?adv ! b ! t + all_values ! b ! t"
    by (simp add: lV rect_row [OF assms(1)])
  from g ra rr pt show ?thesis by blast
qed

section \<open>Properties of the losses\<close>

lemma length_tmap [simp]: "length (tmap f a) = length a"
  by (simp add: tmap_def)

lemma nth_tmap [simp]: "i < length a \<Longrightarrow> tmap f a ! i = map f (a ! i)"
  by (simp add: tmap_def)

lemma rect_tmap: "rect B T a \<Longrightarrow> rect B T (tmap f a)"
  by (rule rectI) (simp_all add: rect_length rect_row)

lemma rect_tmap2: "rect B T a \<Longrightarrow> rect B T b \<Longrightarrow> rect B T (tmap2 f a b)"
  by (rule rectI) (simp_all add: rect_length rect_row)

lemma nth_nth_tmap:
  "rect B T a \<Longrightarrow> i < B \<Longrightarrow> j < T \<Longrightarrow> tmap f a ! i ! j = f (a ! i ! j)"
  by (simp add: rect_length rect_row)

lemma nth_nth_tmap2:
  "rect B T a \<Longrightarrow> rect B T b \<Longrightarrow> i < B \<Longrightarrow> j < T \<Longrightarrow>
   tmap2 f a b ! i ! j = f (a ! i ! j) (b ! i ! j)"
  by (simp add: rect_length rect_row)

lemma rect_eqI:
  assumes a: "rect B T a" and b: "rect B T b"
    and eq: "\<And>i j. i < B \<Longrightarrow> j < T \<Longrightarrow> a ! i ! j = b ! i ! j"
  shows "a = b"
proof (rule nth_equalityI)
  show "length a = length b"
    using a b by (simp add: rect_length)
next
  fix i assume "i < length a"
  then have i: "i < B" using a by (simp add: rect_length)
  show "a ! i = b ! i"
  proof (rule nth_equalityI)
    show "length (a ! i) = length (b ! i)"
      using a b i by (simp add: rect_row)
  next
    fix j assume "j < length (a ! i)"
    then have "j < T" using a i by (simp add: rect_row)
    then show "a ! i ! j = b ! i ! j" using i by (rule eq [rotated])
  qed
qed

lemma sum_list_nth: "sum_list xs = (\<Sum>i\<leftarrow>[0..<length xs]. xs ! i)"
  by (simp add: map_nth)

lemma concat_rect:
  assumes "rect B T X"
  shows "sum_list (concat X) = (\<Sum>b\<leftarrow>[0..<B]. \<Sum>t\<leftarrow>[0..<T]. X ! b ! t)"
    and "length (concat X) = B * T"
proof -
  have lX: "length X = B" using assms by (simp add: rect_length)
  have "sum_list (concat X) = sum_list (map sum_list X)"
    by (induction X) simp_all
  also have "\<dots> = (\<Sum>b\<leftarrow>[0..<B]. sum_list (X ! b))"
  proof -
    have "map ((!) (map sum_list X)) [0..<B] = map (\<lambda>b. sum_list (X ! b)) [0..<B]"
      by (rule map_cong [OF refl]) (simp add: lX)
    then show ?thesis
      using sum_list_nth [of "map sum_list X"] by (simp only: lX length_map)
  qed
  also have "\<dots> = (\<Sum>b\<leftarrow>[0..<B]. \<Sum>t\<leftarrow>[0..<T]. X ! b ! t)"
  proof -
    have "map (\<lambda>b. sum_list (X ! b)) [0..<B] = map (\<lambda>b. \<Sum>t\<leftarrow>[0..<T]. X ! b ! t) [0..<B]"
    proof (rule map_cong [OF refl])
      fix b assume "b \<in> set [0..<B]"
      then have "length (X ! b) = T" using assms by (simp add: rect_row)
      then show "sum_list (X ! b) = (\<Sum>t\<leftarrow>[0..<T]. X ! b ! t)"
        using sum_list_nth [of "X ! b"] by simp
    qed
    then show ?thesis by (rule arg_cong)
  qed
  finally show "sum_list (concat X) = (\<Sum>b\<leftarrow>[0..<B]. \<Sum>t\<leftarrow>[0..<T]. X ! b ! t)" .
  have "map length X = replicate B T"
    using assms by (intro nth_equalityI) (simp_all add: rect_length rect_row)
  then show "length (concat X) = B * T"
    by (simp add: length_concat sum_list_replicate)
qed

lemma torch_mean_rect:
  "rect B T X \<Longrightarrow>
   torch_mean X = (\<Sum>b\<leftarrow>[0..<B]. \<Sum>t\<leftarrow>[0..<T]. X ! b ! t) / real (B * T)"
  by (simp add: torch_mean_def vmean_def concat_rect)

lemma sum_list_rect_cong:
  assumes "\<And>b t. b < B \<Longrightarrow> t < T \<Longrightarrow> f b t = g b t"
  shows "(\<Sum>b\<leftarrow>[0..<B]. \<Sum>t\<leftarrow>[0..<T]. f b t) = (\<Sum>b\<leftarrow>[0..<B]. \<Sum>t\<leftarrow>[0..<T]. (g b t :: real))"
proof -
  have "map (\<lambda>b. \<Sum>t\<leftarrow>[0..<T]. f b t) [0..<B] = map (\<lambda>b. \<Sum>t\<leftarrow>[0..<T]. g b t) [0..<B]"
  proof (rule map_cong [OF refl])
    fix b assume "b \<in> set [0..<B]"
    then have b: "b < B" by simp
    have "map (f b) [0..<T] = map (g b) [0..<T]"
      by (rule map_cong [OF refl]) (simp add: assms b)
    then show "(\<Sum>t\<leftarrow>[0..<T]. f b t) = (\<Sum>t\<leftarrow>[0..<T]. g b t)"
      by (rule arg_cong)
  qed
  then show ?thesis by (rule arg_cong)
qed

lemma torch_mean_uminus: "torch_mean (tmap uminus A) = - torch_mean A"
proof -
  have c: "concat (map (map uminus) A) = map uminus (concat A)"
    by (simp add: map_concat)
  have "sum_list (map uminus xs) = - sum_list xs" for xs :: "real list"
    by (induction xs) simp_all
  then show ?thesis
    by (simp add: torch_mean_def vmean_def tmap_def c)
qed

lemma policy_loss_sum:
  assumes A: "rect B T A" and K: "rect B T kl"
  shows "policy_loss m A kl =
           (\<Sum>b\<leftarrow>[0..<B]. \<Sum>t\<leftarrow>[0..<T].
              max (- (A ! b ! t) * exp (kl ! b ! t))
                  (- (A ! b ! t) *
                     torch_clamp (exp (kl ! b ! t)) (1 - cliprange m) (1 + cliprange m)))
           / real (B * T)"
proof -
  let ?ratio = "tmap exp kl"
  let ?l1 = "tmap2 (\<lambda>a r. - a * r) A ?ratio"
  let ?l2 = "tmap2 (\<lambda>a r. - a * torch_clamp r (1 - cliprange m) (1 + cliprange m)) A ?ratio"
  have r: "rect B T ?ratio" by (rule rect_tmap [OF K])
  have r1: "rect B T ?l1" by (rule rect_tmap2 [OF A r])
  have r2: "rect B T ?l2" by (rule rect_tmap2 [OF A r])
  have rm: "rect B T (tmap2 max ?l1 ?l2)" by (rule rect_tmap2 [OF r1 r2])
  have "policy_loss m A kl = torch_mean (tmap2 max ?l1 ?l2)"
    by (simp add: policy_loss_def Let_def)
  also have "\<dots> = (\<Sum>b\<leftarrow>[0..<B]. \<Sum>t\<leftarrow>[0..<T]. tmap2 max ?l1 ?l2 ! b ! t) / real (B * T)"
    by (rule torch_mean_rect [OF rm])
  also have "(\<Sum>b\<leftarrow>[0..<B]. \<Sum>t\<leftarrow>[0..<T]. tmap2 max ?l1 ?l2 ! b ! t) =
             (\<Sum>b\<leftarrow>[0..<B]. \<Sum>t\<leftarrow>[0..<T].
                max (- (A ! b ! t) * exp (kl ! b ! t))
                    (- (A ! b ! t) *
                       torch_clamp (exp (kl ! b ! t)) (1 - cliprange m) (1 + cliprange m)))"
    by (rule sum_list_rect_cong)
      (simp only: nth_nth_tmap2 [OF r1 r2] nth_nth_tmap2 [OF A r] nth_nth_tmap [OF K])
  finally show ?thesis .
qed

lemma policy_loss_ratio_one:
  assumes A: "rect B T A" and K: "rect B T kl"
    and one: "\<And>b t. b < B \<Longrightarrow> t < T \<Longrightarrow> exp (kl ! b ! t) = 1"
    and c: "0 \<le> cliprange m"
  shows "policy_loss m A kl = - torch_mean A"
proof -
  let ?ratio = "tmap exp kl"
  let ?l1 = "tmap2 (\<lambda>a r. - a * r) A ?ratio"
  let ?l2 = "tmap2 (\<lambda>a r. - a * torch_clamp r (1 - cliprange m) (1 + cliprange m)) A ?ratio"
  have r: "rect B T ?ratio" by (rule rect_tmap [OF K])
  have r1: "rect B T ?l1" by (rule rect_tmap2 [OF A r])
  have r2: "rect B T ?l2" by (rule rect_tmap2 [OF A r])
  have rm: "rect B T (tmap2 max ?l1 ?l2)" by (rule rect_tmap2 [OF r1 r2])
  have ru: "rect B T (tmap uminus A)" by (rule rect_tmap [OF A])
  have cl: "torch_clamp 1 (1 - cliprange m) (1 + cliprange m) = 1"
    using c by (simp add: torch_clamp_def)
  have "tmap2 max ?l1 ?l2 = tmap uminus A"
    by (rule rect_eqI [OF rm ru])
      (simp only: nth_nth_tmap2 [OF r1 r2] nth_nth_tmap2 [OF A r] nth_nth_tmap [OF K]
         nth_nth_tmap [OF A] one cl max.idem mult_1_right)
  then show ?thesis
    by (simp add: policy_loss_def Let_def torch_mean_uminus)
qed


lemma clip_by_value_nth:
  assumes x: "rect B T x" and V: "rect B T V" and b: "b < B" and t: "t < T"
  shows "clip_by_value x (tmap (\<lambda>v. v - c) V) (tmap (\<lambda>v. v + c) V) ! b ! t =
           max (min (x ! b ! t) (V ! b ! t + c)) (V ! b ! t - c)"
proof -
  have lo: "rect B T (tmap (\<lambda>v. v - c) V)" and hi: "rect B T (tmap (\<lambda>v. v + c) V)"
    by (rule rect_tmap [OF V])+
  have mn: "rect B T (tmap2 min x (tmap (\<lambda>v. v + c) V))"
    by (rule rect_tmap2 [OF x hi])
  show ?thesis
    by (simp only: clip_by_value_def nth_nth_tmap2 [OF mn lo b t] nth_nth_tmap2 [OF x hi b t]
        nth_nth_tmap [OF V b t])
qed

lemma rect_clip_by_value:
  assumes x: "rect B T x" and V: "rect B T V"
  shows "rect B T (clip_by_value x (tmap (\<lambda>v. v - c) V) (tmap (\<lambda>v. v + c) V))"
  unfolding clip_by_value_def
  by (intro rect_tmap2 rect_tmap x V)

lemma clip_by_value_zero:
  assumes x: "rect B T x" and V: "rect B T V"
  shows "clip_by_value x (tmap (\<lambda>v. v - 0) V) (tmap (\<lambda>v. v + 0) V) = V"
proof (rule rect_eqI [OF rect_clip_by_value [OF x V] V])
  fix i j assume "i < B" and "j < T"
  then show "clip_by_value x (tmap (\<lambda>v. v - 0) V) (tmap (\<lambda>v. v + 0) V) ! i ! j = V ! i ! j"
    using clip_by_value_nth [OF x V, of i j 0] by simp
qed

lemma value_loss_sum:
  assumes x: "rect B T vpred" and V: "rect B T V" and r: "rect B T ret"
  shows "value_loss m vpred V ret =
           0.5 * ((\<Sum>b\<leftarrow>[0..<B]. \<Sum>t\<leftarrow>[0..<T].
                     max ((vpred ! b ! t - ret ! b ! t) ^ 2)
                         ((max (min (vpred ! b ! t) (V ! b ! t + cliprange_value m))
                               (V ! b ! t - cliprange_value m) - ret ! b ! t) ^ 2))
                  / real (B * T))"
proof -
  let ?c = "cliprange_value m"
  let ?clip = "clip_by_value vpred (tmap (\<lambda>v. v - ?c) V) (tmap (\<lambda>v. v + ?c) V)"
  let ?l1 = "tmap (\<lambda>d. d ^ 2) (tmap2 (-) vpred ret)"
  let ?l2 = "tmap (\<lambda>d. d ^ 2) (tmap2 (-) ?clip ret)"
  have rc: "rect B T ?clip" by (rule rect_clip_by_value [OF x V])
  have d1: "rect B T (tmap2 (-) vpred ret)" by (rule rect_tmap2 [OF x r])
  have d2: "rect B T (tmap2 (-) ?clip ret)" by (rule rect_tmap2 [OF rc r])
  have r1: "rect B T ?l1" by (rule rect_tmap [OF d1])
  have r2: "rect B T ?l2" by (rule rect_tmap [OF d2])
  have rm: "rect B T (tmap2 max ?l1 ?l2)" by (rule rect_tmap2 [OF r1 r2])
  have "value_loss m vpred V ret = 0.5 * torch_mean (tmap2 max ?l1 ?l2)"
    by (simp add: value_loss_def Let_def)
  also have "torch_mean (tmap2 max ?l1 ?l2) =
               (\<Sum>b\<leftarrow>[0..<B]. \<Sum>t\<leftarrow>[0..<T]. tmap2 max ?l1 ?l2 ! b ! t) / real (B * T)"
    by (rule torch_mean_rect [OF rm])
  also have "(\<Sum>b\<leftarrow>[0..<B]. \<Sum>t\<leftarrow>[0..<T]. tmap2 max ?l1 ?l2 ! b ! t) =
             (\<Sum>b\<leftarrow>[0..<B]. \<Sum>t\<leftarrow>[0..<T].
                max ((vpred ! b ! t - ret ! b ! t) ^ 2)
                    ((max (min (vpred ! b ! t) (V ! b ! t + ?c)) (V ! b ! t - ?c)
                      - ret ! b ! t) ^ 2))"
    by (rule sum_list_rect_cong)
      (simp only: nth_nth_tmap2 [OF r1 r2] nth_nth_tmap [OF d1] nth_nth_tmap [OF d2]
         nth_nth_tmap2 [OF x r] nth_nth_tmap2 [OF rc r] clip_by_value_nth [OF x V])
  finally show ?thesis .
qed

lemma gae_rect:
  assumes V: "rect B T V" and R: "rect B T R" and T: "1 \<le> T"
    and g: "gae m T V R = Inr (adv, ret)"
  shows "rect B T adv" and "rect B T ret"
proof -
  let ?adv = "map (\<lambda>b. map (\<lambda>t. gae_spec (gamma m) (lam m) (V ! b) (R ! b) T t) [0..<T]) [0..<B]"
  have "(Inr (adv, ret) :: error + tensor2 \<times> tensor2) = Inr (?adv, tmap2 (+) ?adv V)"
    by (rule trans [OF g [symmetric] gae_eq [OF V R T]])
  then have a: "adv = ?adv" and r: "ret = tmap2 (+) ?adv V"
    by blast+
  have ra: "rect B T ?adv" by (rule rectI) simp_all
  show "rect B T adv" using ra a by simp
  show "rect B T ret" unfolding r by (rule rect_tmap2 [OF ra V])
qed

lemma loss_Inr:
  assumes g: "gae m T V R = Inr (adv, ret)" and ne: "V \<noteq> []"
  shows "loss m w lp vp T old V R =
           Inr \<lparr> model_loss =
                   policy_loss m (w adv) (kl_of (map (slice_last T) lp) old) +
                   vf_coef m * value_loss m (map (slice_before_last T) vp) V ret,
                 pg_loss = policy_loss m (w adv) (kl_of (map (slice_last T) lp) old),
                 vf_loss = value_loss m (map (slice_before_last T) vp) V ret,
                 recorded_mean_kl = mean_kl_of (kl_of (map (slice_last T) lp) old) \<rparr>"
  using ne by (simp add: loss_def g Let_def)

lemma rect_nonempty: "rect B T V \<Longrightarrow> 1 \<le> B \<Longrightarrow> V \<noteq> []"
  by (auto simp: rect_def)

text \<open>
  C2 (as amended: \<open>cliprange\<close> is not negative in the special case). For a batch of
  shape \<open>[B, T]\<close>, \<open>loss\<close> returns normally and its policy loss is the mean, over all
  \<open>B * T\<close> positions, of \<open>max(loss1, loss2)\<close> with \<open>ratio = exp(new_logprob -
  old_logprob)\<close>, \<open>loss1 = -advantages * ratio\<close> and \<open>loss2 = -advantages *
  clamp(ratio, 1 - cliprange, 1 + cliprange)\<close>, the advantages being the whitened ones.
  When the ratio is 1 at every position and \<open>cliprange \<ge> 0\<close>, the policy loss is
  \<open>-mean(advantages)\<close>.
\<close>

theorem C2_policy_loss:
  assumes g: "gae m T all_values all_rewards = Inr (advantages_raw, returns)"
    and V: "rect B T all_values" and B: "1 \<le> B"
    and a: "advantages = w advantages_raw" and A: "rect B T advantages"
    and k: "kl = kl_of (map (slice_last T) logprob_all) all_logprobs" and K: "rect B T kl"
  shows "\<exists>out. loss m w logprob_all vpred_all T all_logprobs all_values all_rewards = Inr out \<and>
           pg_loss out =
             (\<Sum>b\<leftarrow>[0..<B]. \<Sum>t\<leftarrow>[0..<T].
                max (- (advantages ! b ! t) * exp (kl ! b ! t))
                    (- (advantages ! b ! t) *
                       torch_clamp (exp (kl ! b ! t)) (1 - cliprange m) (1 + cliprange m)))
             / real (B * T) \<and>
           ((\<forall>b<B. \<forall>t<T. exp (kl ! b ! t) = 1) \<and> 0 \<le> cliprange m \<longrightarrow>
              pg_loss out = - torch_mean advantages)"
proof -
  let ?out = "\<lparr> model_loss =
                   policy_loss m advantages kl +
                   vf_coef m * value_loss m (map (slice_before_last T) vpred_all) all_values returns,
                 pg_loss = policy_loss m advantages kl,
                 vf_loss = value_loss m (map (slice_before_last T) vpred_all) all_values returns,
                 recorded_mean_kl = mean_kl_of kl \<rparr>"
  have l: "loss m w logprob_all vpred_all T all_logprobs all_values all_rewards = Inr ?out"
    unfolding a k by (rule loss_Inr [OF g rect_nonempty [OF V B]])
  have s: "pg_loss ?out =
             (\<Sum>b\<leftarrow>[0..<B]. \<Sum>t\<leftarrow>[0..<T].
                max (- (advantages ! b ! t) * exp (kl ! b ! t))
                    (- (advantages ! b ! t) *
                       torch_clamp (exp (kl ! b ! t)) (1 - cliprange m) (1 + cliprange m)))
             / real (B * T)"
    using policy_loss_sum [OF A K, of m] by simp
  have o: "(\<forall>b<B. \<forall>t<T. exp (kl ! b ! t) = 1) \<Longrightarrow> 0 \<le> cliprange m \<Longrightarrow>
             pg_loss ?out = - torch_mean advantages"
    using policy_loss_ratio_one [OF A K] by simp
  from l s o show ?thesis by blast
qed

text \<open>
  C3. For a batch of shape \<open>[B, T]\<close>, \<open>loss\<close> returns normally and its value loss is
  \<open>0.5\<close> times the mean, over all \<open>B * T\<close> positions, of the larger of
  \<open>(new_value - returns)^2\<close> and \<open>(clipped_value - returns)^2\<close>, where the clipped
  value is the new value clipped to \<open>[old_value - cliprange_value, old_value +
  cliprange_value]\<close>. With \<open>cliprange_value = 0\<close> the clipped tensor is the tensor of
  old values, so the clipped term is \<open>(old_value - returns)^2\<close>.
\<close>

theorem C3_value_loss:
  assumes g: "gae m T all_values all_rewards = Inr (advantages_raw, returns)"
    and V: "rect B T all_values" and R: "rect B T all_rewards"
    and B: "1 \<le> B" and T: "1 \<le> T"
    and v: "vpred = map (slice_before_last T) vpred_all" and P: "rect B T vpred"
  shows "\<exists>out. loss m w logprob_all vpred_all T all_logprobs all_values all_rewards = Inr out \<and>
           vf_loss out =
             0.5 * ((\<Sum>b\<leftarrow>[0..<B]. \<Sum>t\<leftarrow>[0..<T].
                      max ((vpred ! b ! t - returns ! b ! t) ^ 2)
                          ((max (min (vpred ! b ! t) (all_values ! b ! t + cliprange_value m))
                                (all_values ! b ! t - cliprange_value m)
                            - returns ! b ! t) ^ 2))
                    / real (B * T)) \<and>
           (cliprange_value m = 0 \<longrightarrow>
              clip_by_value vpred (tmap (\<lambda>v. v - cliprange_value m) all_values)
                (tmap (\<lambda>v. v + cliprange_value m) all_values) = all_values \<and>
              vf_loss out =
                0.5 * ((\<Sum>b\<leftarrow>[0..<B]. \<Sum>t\<leftarrow>[0..<T].
                         max ((vpred ! b ! t - returns ! b ! t) ^ 2)
                             ((all_values ! b ! t - returns ! b ! t) ^ 2))
                       / real (B * T)))"
proof -
  let ?kl = "kl_of (map (slice_last T) logprob_all) all_logprobs"
  let ?out = "\<lparr> model_loss =
                   policy_loss m (w advantages_raw) ?kl +
                   vf_coef m * value_loss m vpred all_values returns,
                 pg_loss = policy_loss m (w advantages_raw) ?kl,
                 vf_loss = value_loss m vpred all_values returns,
                 recorded_mean_kl = mean_kl_of ?kl \<rparr>"
  have rr: "rect B T returns"
    by (rule gae_rect(2) [OF V R T g])
  have l: "loss m w logprob_all vpred_all T all_logprobs all_values all_rewards = Inr ?out"
    unfolding v by (rule loss_Inr [OF g rect_nonempty [OF V B]])
  have s: "vf_loss ?out =
             0.5 * ((\<Sum>b\<leftarrow>[0..<B]. \<Sum>t\<leftarrow>[0..<T].
                      max ((vpred ! b ! t - returns ! b ! t) ^ 2)
                          ((max (min (vpred ! b ! t) (all_values ! b ! t + cliprange_value m))
                                (all_values ! b ! t - cliprange_value m)
                            - returns ! b ! t) ^ 2))
                    / real (B * T))"
    using value_loss_sum [OF P V rr, of m] by simp
  have z1: "cliprange_value m = 0 \<Longrightarrow>
              clip_by_value vpred (tmap (\<lambda>v. v - cliprange_value m) all_values)
                (tmap (\<lambda>v. v + cliprange_value m) all_values) = all_values"
    using clip_by_value_zero [OF P V] by simp
  have z2: "cliprange_value m = 0 \<Longrightarrow>
              vf_loss ?out =
                0.5 * ((\<Sum>b\<leftarrow>[0..<B]. \<Sum>t\<leftarrow>[0..<T].
                         max ((vpred ! b ! t - returns ! b ! t) ^ 2)
                             ((all_values ! b ! t - returns ! b ! t) ^ 2))
                       / real (B * T))"
    using s by simp
  from l s z1 z2 show ?thesis by blast
qed

section \<open>Zero rewards, and the properties at concrete batches\<close>

lemma gae_spec_zero: "gae_spec g l (replicate T 0) (replicate T 0) T t = 0"
proof (induction "T - t" arbitrary: t)
  case 0
  then show ?case by (simp add: gae_spec.simps [of _ _ _ _ T t])
next
  case (Suc n)
  then have t: "t < T" and n: "n = T - Suc t" by simp_all
  have "gae_spec g l (replicate T 0) (replicate T 0) T (Suc t) = 0"
    by (rule Suc.hyps(1) [OF n])
  then show ?case
    using t by (subst gae_spec.simps) (simp add: Let_def)
qed

lemma gae_spec_last:
  "gae_spec g l (replicate (Suc n) c) (replicate (Suc n) 0) (Suc n) n = - c"
proof -
  have e: "gae_spec g l (replicate (Suc n) c) (replicate (Suc n) 0) (Suc n) (Suc n) = 0"
    by (simp add: gae_spec.simps [of _ _ _ _ "Suc n" "Suc n"])
  show ?thesis
    by (subst gae_spec.simps) (simp add: Let_def e del: replicate_Suc)
qed

lemma rect_replicate: "rect B T (replicate B (replicate T c))"
  by (simp add: rect_def list_all_length)

text \<open>
  C8 (as amended: the constant value is zero). For \<open>T \<ge> 1\<close>, when all rewards and all
  values of a batch are zero, the raw advantages are all exactly zero and the returns
  equal the values. For values all equal to a constant \<open>c\<close> and zero rewards, the
  advantage at the last position of every batch element is \<open>-c\<close> and the return there
  is \<open>0\<close>: the value after the last position counts as zero.
\<close>

theorem C8_zero_rewards_constant_values:
  assumes T: "1 \<le> T"
  shows "gae m T (replicate B (replicate T 0)) (replicate B (replicate T 0)) =
           Inr (replicate B (replicate T 0), replicate B (replicate T 0)) \<and>
         (\<exists>advantages returns.
            gae m T (replicate B (replicate T c)) (replicate B (replicate T 0)) =
              Inr (advantages, returns) \<and>
            (\<forall>b<B. advantages ! b ! (T - 1) = - c \<and> returns ! b ! (T - 1) = 0))"
proof -
  let ?Z = "replicate B (replicate T (0::real))"
  let ?C = "replicate B (replicate T c)"
  let ?advZ = "map (\<lambda>b. map (\<lambda>t. gae_spec (gamma m) (lam m) (?Z ! b) (?Z ! b) T t) [0..<T]) [0..<B]"
  let ?advC = "map (\<lambda>b. map (\<lambda>t. gae_spec (gamma m) (lam m) (?C ! b) (?Z ! b) T t) [0..<T]) [0..<B]"
  have rZ: "rect B T ?Z" and rC: "rect B T ?C" by (rule rect_replicate)+
  have raZ: "rect B T ?advZ" and raC: "rect B T ?advC" by (rule rectI; simp)+
  have gZ: "gae m T ?Z ?Z = Inr (?advZ, tmap2 (+) ?advZ ?Z)"
    by (rule gae_eq [OF rZ rZ T])
  have gC: "gae m T ?C ?Z = Inr (?advC, tmap2 (+) ?advC ?C)"
    by (rule gae_eq [OF rC rZ T])
  have aZ: "?advZ = ?Z"
    by (rule rect_eqI [OF raZ rZ]) (simp add: gae_spec_zero)
  have retZ: "tmap2 (+) ?Z ?Z = ?Z"
    by (rule rect_eqI [OF rect_tmap2 [OF rZ rZ] rZ]) (simp add: nth_nth_tmap2 [OF rZ rZ])
  have first: "gae m T ?Z ?Z = Inr (?Z, ?Z)"
    using gZ by (simp only: aZ retZ)
  have last: "\<forall>b<B. ?advC ! b ! (T - 1) = - c \<and> tmap2 (+) ?advC ?C ! b ! (T - 1) = 0"
  proof (intro allI impI)
    fix b assume b: "b < B"
    have t: "T - 1 < T" using T by simp
    obtain n where n: "T = Suc n" using T by (cases T) simp_all
    have a: "?advC ! b ! (T - 1) = - c"
      using b gae_spec_last [of "gamma m" "lam m" n c] by (simp add: n del: replicate_Suc upt_Suc)
    have "tmap2 (+) ?advC ?C ! b ! (T - 1) = ?advC ! b ! (T - 1) + ?C ! b ! (T - 1)"
      by (rule nth_nth_tmap2 [OF raC rC b t])
    also have "\<dots> = 0" using b t by (simp only: a) simp
    finally show "?advC ! b ! (T - 1) = - c \<and> tmap2 (+) ?advC ?C ! b ! (T - 1) = 0"
      using a by simp
  qed
  from first gC last show ?thesis by blast
qed

text \<open>
  C8 as stated fails for a non-zero constant: with all values \<open>1\<close> and all rewards \<open>0\<close>
  (and \<open>gamma = lam = 1\<close>) every advantage is \<open>-1\<close> and every return is \<open>0\<close>, not \<open>1\<close>.
\<close>

theorem C8_counterexample:
  "gae m0 2 [[1, 1], [1, 1]] [[0, 0], [0, 0]] = Inr ([[-1, -1], [-1, -1]], [[0, 0], [0, 0]])"
  by code_simp

text \<open>The theorem at a batch of shape \<open>[2, 3]\<close>.\<close>

theorem C8_witness:
  "(1::nat) \<le> 3 \<and>
   gae m0 3 [[0, 0, 0], [0, 0, 0]] [[0, 0, 0], [0, 0, 0]] =
     Inr ([[0, 0, 0], [0, 0, 0]], [[0, 0, 0], [0, 0, 0]])"
  using C8_zero_rewards_constant_values [of 3 m0 2 0]
  by (simp add: numeral_eq_Suc)

text \<open>
  The theorem at the scenario of the specification: two trajectories of length 3,
  \<open>gamma = lam = 1\<close>, zero values, rewards \<open>[1,0,0]\<close> and \<open>[0,0,1]\<close>. The code returns
  the advantages \<open>[1,0,0]\<close> and \<open>[1,1,1]\<close>, which by the theorem are values of the
  recurrence.
\<close>

theorem C1_witness:
  "rect 2 3 [[0, 0, 0], [0, 0, 0]] \<and> rect 2 3 [[1, 0, 0], [0, 0, 1]] \<and> (1::nat) \<le> 3 \<and>
   gae m0 3 [[0, 0, 0], [0, 0, 0]] [[1, 0, 0], [0, 0, 1]] =
     Inr ([[1, 0, 0], [1, 1, 1]], [[1, 0, 0], [1, 1, 1]]) \<and>
   gae_spec 1 1 [0, 0, 0] [0, 0, 1] 3 0 = 1 \<and>
   gae_spec 1 1 [0, 0, 0] [1, 0, 0] 3 1 = 0"
proof -
  let ?V = "[[0, 0, 0], [0, 0, 0 :: real]]"
  let ?R = "[[1, 0, 0], [0, 0, 1 :: real]]"
  have h1: "rect 2 3 ?V" and h2: "rect 2 3 ?R" and h3: "(1::nat) \<le> 3"
    by (simp_all add: rect_def)
  have e: "gae m0 3 ?V ?R = Inr ([[1, 0, 0], [1, 1, 1]], [[1, 0, 0], [1, 1, 1]])"
    by code_simp
  from C1_gae_recurrence_and_returns [OF h1 h2 h3, of m0]
  obtain adv ret where g: "gae m0 3 ?V ?R = Inr (adv, ret)"
    and p: "\<forall>b<2. \<forall>t<3. adv ! b ! t = gae_spec (gamma m0) (lam m0) (?V ! b) (?R ! b) 3 t \<and>
                              ret ! b ! t = adv ! b ! t + ?V ! b ! t"
    by blast
  from g e have a: "adv = [[1, 0, 0], [1, 1, 1]]" by simp
  have "adv ! 1 ! 0 = gae_spec (gamma m0) (lam m0) (?V ! 1) (?R ! 1) 3 0"
    using p by simp
  then have r1: "gae_spec 1 1 [0, 0, 0] [0, 0, 1] 3 0 = 1"
    by (simp add: a m0_def)
  have "adv ! 0 ! 1 = gae_spec (gamma m0) (lam m0) (?V ! 0) (?R ! 0) 3 1"
    using p by simp
  then have r2: "gae_spec 1 1 [0, 0, 0] [1, 0, 0] 3 1 = 0"
    by (simp add: a m0_def)
  from h1 h2 h3 e r1 r2 show ?thesis by blast
qed


text \<open>The equations that evaluate \<open>loss\<close> on a concrete batch.\<close>

lemmas loss_eval =
  loss_def gae_def gae_step_def col_def vmap2_def smul_def tmap_def tmap2_def
  stack_transpose_def value_loss_def policy_loss_def clip_by_value_def kl_of_def mean_kl_of_def
  torch_mean_def vmean_def torch_clamp_def slice_last_def slice_before_last_def Let_def
  upt_rec numeral_eq_Suc

text \<open>
  C2 as stated fails for a negative \<open>cliprange\<close>: with \<open>cliprange = -1/2\<close> the clamp of
  the ratio \<open>1\<close> to \<open>[3/2, 1/2]\<close> is \<open>1/2\<close>, and for the advantage \<open>2\<close> the policy loss is
  \<open>-1\<close> although \<open>-mean(advantages) = -2\<close>.
\<close>

theorem C2_counterexample:
  "loss (m0\<lparr>cliprange := - (1 / 2)\<rparr>) (\<lambda>a. [[2]]) [[0]] [[0, 0]] 1 [[0]] [[0]] [[0]] =
     Inr \<lparr> model_loss = - 1, pg_loss = - 1, vf_loss = 0, recorded_mean_kl = 0 \<rparr> \<and>
   exp (kl_of (map (slice_last 1) [[0]]) [[0]] ! 0 ! 0) = 1 \<and>
   - torch_mean [[2]] = - 2"
  by (simp add: loss_eval m0_def)

text \<open>
  The theorem at a batch of shape \<open>[1, 2]\<close> with the advantages forced to \<open>[2, -1]\<close> and
  new log-probabilities equal to the old ones.
\<close>

theorem C2_witness:
  "gae m0 2 [[0, 0]] [[1, 0]] = Inr ([[1, 0]], [[1, 0]]) \<and>
   rect 1 2 [[0, 0]] \<and> rect 1 2 [[2, - 1]] \<and>
   kl_of (map (slice_last 2) [[- 1, - 2, - 3]]) [[- 2, - 3]] = [[0, 0]] \<and>
   0 \<le> cliprange m0 \<and>
   (\<exists>out. loss m0 (\<lambda>a. [[2, - 1]]) [[- 1, - 2, - 3]] [[5, 3, 4, 9]] 2 [[- 2, - 3]]
            [[0, 0]] [[1, 0]] = Inr out \<and>
          pg_loss out = - (1 / 2))"
proof -
  have g: "gae m0 2 [[0, 0]] [[1, 0]] = Inr ([[1, 0]], [[1, 0]])"
    by code_simp
  have V: "rect 1 2 [[0, 0]]" and A: "rect 1 2 [[2, - 1]]" and K: "rect 1 2 [[0, 0]]"
    by (simp_all add: rect_def)
  have B: "(1::nat) \<le> 1" by simp
  have a: "[[2, - 1]] = (\<lambda>a::tensor2. [[2, - 1 :: real]]) [[1, 0]]" by simp
  have k: "[[0, 0]] = kl_of (map (slice_last 2) [[- 1, - 2, - 3]]) [[- 2, - 3]]"
    by (simp add: kl_of_def tmap2_def vmap2_def slice_last_def)
  have c: "0 \<le> cliprange m0" by (simp add: m0_def)
  have one: "\<forall>b<1. \<forall>t<2. exp ([[0, 0 :: real]] ! b ! t) = 1"
    by (simp add: less_Suc_eq numeral_eq_Suc)
  have mean: "torch_mean [[2, - 1]] = 1 / 2"
    by (simp add: torch_mean_def vmean_def)
  from C2_policy_loss [where w = "\<lambda>a. [[2, - 1]]" and vpred_all = "[[5, 3, 4, 9]]",
      OF g V B a A k K]
  obtain out where l: "loss m0 (\<lambda>a. [[2, - 1]]) [[- 1, - 2, - 3]] [[5, 3, 4, 9]] 2 [[- 2, - 3]]
            [[0, 0]] [[1, 0]] = Inr out"
    and p: "(\<forall>b<1. \<forall>t<2. exp ([[0, 0 :: real]] ! b ! t) = 1) \<and> 0 \<le> cliprange m0 \<longrightarrow>
              pg_loss out = - torch_mean [[2, - 1]]"
    by blast
  from p one c mean have r: "pg_loss out = - (1 / 2)" by simp
  from l r have e: "\<exists>out. loss m0 (\<lambda>a. [[2, - 1]]) [[- 1, - 2, - 3]] [[5, 3, 4, 9]] 2 [[- 2, - 3]]
            [[0, 0]] [[1, 0]] = Inr out \<and> pg_loss out = - (1 / 2)"
    by blast
  from g V A k [symmetric] c e show ?thesis by blast
qed

text \<open>
  The theorem at a batch of shape \<open>[1, 2]\<close> with \<open>cliprange_value = 0\<close>: old values
  \<open>[1, 2]\<close>, new values \<open>[3, 4]\<close>, returns \<open>[0, 0]\<close>, value loss \<open>0.5 * (9 + 16) / 2\<close>.
\<close>

theorem C3_witness:
  "gae (m0\<lparr>cliprange_value := 0\<rparr>) 2 [[1, 2]] [[0, 0]] = Inr ([[- 1, - 2]], [[0, 0]]) \<and>
   rect 1 2 [[1, 2]] \<and> rect 1 2 [[0, 0]] \<and> rect 1 2 [[3, 4]] \<and>
   map (slice_before_last 2) [[5, 3, 4, 9 :: real]] = [[3, 4]] \<and>
   cliprange_value (m0\<lparr>cliprange_value := 0\<rparr>) = 0 \<and>
   (\<exists>out. loss (m0\<lparr>cliprange_value := 0\<rparr>) (\<lambda>a. a) [[- 1, - 2, - 3]] [[5, 3, 4, 9]] 2
            [[- 2, - 3]] [[1, 2]] [[0, 0]] = Inr out \<and>
          vf_loss out = 25 / 4)"
proof -
  let ?m = "m0\<lparr>cliprange_value := 0\<rparr>"
  have g: "gae ?m 2 [[1, 2]] [[0, 0]] = Inr ([[- 1, - 2]], [[0, 0]])"
    by code_simp
  have V: "rect 1 2 [[1, 2]]" and R: "rect 1 2 [[0, 0]]" and P: "rect 1 2 [[3, 4]]"
    by (simp_all add: rect_def)
  have B: "(1::nat) \<le> 1" and T: "(1::nat) \<le> 2" by simp_all
  have v: "[[3, 4]] = map (slice_before_last 2) [[5, 3, 4, 9 :: real]]"
    by (simp add: slice_before_last_def)
  have z: "cliprange_value ?m = 0" by simp
  from C3_value_loss [where w = "\<lambda>a. a" and logprob_all = "[[- 1, - 2, - 3]]"
      and all_logprobs = "[[- 2, - 3]]", OF g V R B T v P]
  obtain out where l: "loss ?m (\<lambda>a. a) [[- 1, - 2, - 3]] [[5, 3, 4, 9]] 2
            [[- 2, - 3]] [[1, 2]] [[0, 0]] = Inr out"
    and s: "cliprange_value ?m = 0 \<longrightarrow>
            clip_by_value [[3, 4]] (tmap (\<lambda>v. v - cliprange_value ?m) [[1, 2]])
                (tmap (\<lambda>v. v + cliprange_value ?m) [[1, 2]]) = [[1, 2]] \<and>
            vf_loss out =
              0.5 * ((\<Sum>b\<leftarrow>[0..<1]. \<Sum>t\<leftarrow>[0..<2].
                        max (([[3, 4]] ! b ! t - [[0, 0]] ! b ! t) ^ 2)
                            (([[1, 2]] ! b ! t - [[0, 0 :: real]] ! b ! t) ^ 2))
                     / real (1 * 2))"
    by blast
  from s z have "vf_loss out =
              0.5 * ((\<Sum>b\<leftarrow>[0..<1]. \<Sum>t\<leftarrow>[0..<2].
                        max (([[3, 4]] ! b ! t - [[0, 0]] ! b ! t) ^ 2)
                            (([[1, 2]] ! b ! t - [[0, 0 :: real]] ! b ! t) ^ 2))
                     / real (1 * 2))"
    by blast
  then have r: "vf_loss out = 25 / 4"
    by (simp add: upt_rec numeral_eq_Suc)
  from l r have e: "\<exists>out. loss ?m (\<lambda>a. a) [[- 1, - 2, - 3]] [[5, 3, 4, 9]] 2
            [[- 2, - 3]] [[1, 2]] [[0, 0]] = Inr out \<and> vf_loss out = 25 / 4"
    by blast
  from g V R P v [symmetric] z e show ?thesis by blast
qed

section \<open>Properties of the training loop\<close>

declare learn_loop.simps [simp del]

lemma optimization_pass_Inr:
  assumes "optimization_pass env config b s = Inr s'"
  shows "\<exists>out.
           loss (method_cfg config) (whiten_fn env)
             (fst (forward env (policy s) b)) (snd (forward env (policy s) b))
             (shape1 (response_tensors b)) (logprobs b) (values' b) (rewards b) = Inr out \<and>
           s' = s\<lparr> mean_kl := Some (recorded_mean_kl out),
                   logs := Some \<lparr> log_loss = model_loss out, log_pg_loss = pg_loss out,
                                  log_vf_loss = vf_loss out, log_batch = b,
                                  log_rewards = rewards b \<rparr>,
                   policy := opt_step env (policy s) b,
                   iter_count := iter_count s + 1,
                   trace := trace s @
                     [EvLoss b (recorded_mean_kl out), EvZeroGrad, EvBackward, EvOptStep,
                      EvSchedStep] \<rparr>"
  using assms by (auto simp: optimization_pass_def split: sum.splits)

lemma passes_snoc:
  "passes env config b (Suc n) s = Inr s' \<Longrightarrow>
   \<exists>s1. passes env config b n s = Inr s1 \<and> optimization_pass env config b s1 = Inr s'"
proof (induction n arbitrary: s)
  case 0
  then show ?case by (auto split: sum.splits)
next
  case (Suc n)
  from Suc.prems obtain s1 where o: "optimization_pass env config b s = Inr s1"
    and r: "passes env config b (Suc n) s1 = Inr s'"
    by (auto split: sum.splits)
  from Suc.IH [OF r] obtain s2 where "passes env config b n s1 = Inr s2"
    and "optimization_pass env config b s2 = Inr s'" by blast
  then show ?case using o by simp
qed

lemma passes_Inr:
  "passes env config b n s = Inr s' \<Longrightarrow>
   \<exists>outs.
     length outs = n \<and>
     (\<forall>i<n. loss (method_cfg config) (whiten_fn env)
               (fst (forward env (((\<lambda>p. opt_step env p b) ^^ i) (policy s)) b))
               (snd (forward env (((\<lambda>p. opt_step env p b) ^^ i) (policy s)) b))
               (shape1 (response_tensors b)) (logprobs b) (values' b) (rewards b) =
             Inr (outs ! i)) \<and>
     iter_count s' = iter_count s + int n \<and>
     policy s' = ((\<lambda>p. opt_step env p b) ^^ n) (policy s) \<and>
     trace s' =
       trace s @
       concat (map (\<lambda>out. [EvLoss b (recorded_mean_kl out), EvZeroGrad, EvBackward,
                             EvOptStep, EvSchedStep]) outs) \<and>
     mean_kl s' = (if outs = [] then mean_kl s else Some (recorded_mean_kl (last outs))) \<and>
     logs s' =
       (if outs = [] then logs s
        else Some \<lparr> log_loss = model_loss (last outs), log_pg_loss = pg_loss (last outs),
                     log_vf_loss = vf_loss (last outs), log_batch = b,
                     log_rewards = rewards b \<rparr>) \<and>
     kl_ctl s' = kl_ctl s \<and> epoch s' = epoch s \<and> store s' = store s"
proof (induction n arbitrary: s)
  case 0
  then show ?case by simp
next
  case (Suc n)
  let ?step = "\<lambda>p. opt_step env p b"
  let ?ev = "\<lambda>out. [EvLoss b (recorded_mean_kl out), EvZeroGrad, EvBackward, EvOptStep,
                       EvSchedStep]"
  from Suc.prems obtain s1 where o: "optimization_pass env config b s = Inr s1"
    and r: "passes env config b n s1 = Inr s'"
    by (auto split: sum.splits)
  from optimization_pass_Inr [OF o] obtain out :: loss_out where
    l: "loss (method_cfg config) (whiten_fn env)
          (fst (forward env (policy s) b)) (snd (forward env (policy s) b))
          (shape1 (response_tensors b)) (logprobs b) (values' b) (rewards b) = Inr out"
    and s1: "s1 = s\<lparr> mean_kl := Some (recorded_mean_kl out),
                   logs := Some \<lparr> log_loss = model_loss out, log_pg_loss = pg_loss out,
                                  log_vf_loss = vf_loss out, log_batch = b,
                                  log_rewards = rewards b \<rparr>,
                   policy := opt_step env (policy s) b,
                   iter_count := iter_count s + 1,
                   trace := trace s @
                     [EvLoss b (recorded_mean_kl out), EvZeroGrad, EvBackward, EvOptStep,
                      EvSchedStep] \<rparr>"
    by blast
  from Suc.IH [OF r] obtain outs :: "loss_out list" where k: "length outs = n"
    and ls: "\<forall>i<n. loss (method_cfg config) (whiten_fn env)
               (fst (forward env ((?step ^^ i) (policy s1)) b))
               (snd (forward env ((?step ^^ i) (policy s1)) b))
               (shape1 (response_tensors b)) (logprobs b) (values' b) (rewards b) =
             Inr (outs ! i)"
    and i: "iter_count s' = iter_count s1 + int n"
    and p: "policy s' = (?step ^^ n) (policy s1)"
    and t: "trace s' = trace s1 @ concat (map ?ev outs)"
    and m: "mean_kl s' = (if outs = [] then mean_kl s1 else Some (recorded_mean_kl (last outs)))"
    and g: "logs s' =
       (if outs = [] then logs s1
        else Some \<lparr> log_loss = model_loss (last outs), log_pg_loss = pg_loss (last outs),
                     log_vf_loss = vf_loss (last outs), log_batch = b,
                     log_rewards = rewards b \<rparr>)"
    and f: "kl_ctl s' = kl_ctl s1" "epoch s' = epoch s1" "store s' = store s1"
    by blast
  let ?outs = "out # outs"
  have p1: "policy s1 = ?step (policy s)" using s1 by simp
  have sw: "(?step ^^ j) (?step (policy s)) = (?step ^^ Suc j) (policy s)" for j
    using funpow_swap1 [of ?step j "policy s"] by simp
  have 1: "length ?outs = Suc n" using k by simp
  have 2: "\<forall>i<Suc n. loss (method_cfg config) (whiten_fn env)
               (fst (forward env ((?step ^^ i) (policy s)) b))
               (snd (forward env ((?step ^^ i) (policy s)) b))
               (shape1 (response_tensors b)) (logprobs b) (values' b) (rewards b) =
             Inr (?outs ! i)"
  proof (intro allI impI)
    fix i assume "i < Suc n"
    show "loss (method_cfg config) (whiten_fn env)
               (fst (forward env ((?step ^^ i) (policy s)) b))
               (snd (forward env ((?step ^^ i) (policy s)) b))
               (shape1 (response_tensors b)) (logprobs b) (values' b) (rewards b) =
             Inr (?outs ! i)"
    proof (cases i)
      case 0
      then show ?thesis using l by simp
    next
      case (Suc j)
      with \<open>i < Suc n\<close> have "j < n" by simp
      with ls have "loss (method_cfg config) (whiten_fn env)
               (fst (forward env ((?step ^^ j) (policy s1)) b))
               (snd (forward env ((?step ^^ j) (policy s1)) b))
               (shape1 (response_tensors b)) (logprobs b) (values' b) (rewards b) =
             Inr (outs ! j)" by blast
      then show ?thesis
        unfolding p1 sw using Suc by simp
    qed
  qed
  have 3: "iter_count s' = iter_count s + int (Suc n)" using i s1 by simp
  have 4: "policy s' = (?step ^^ Suc n) (policy s)"
    using p unfolding p1 sw .
  have 5: "trace s' = trace s @ concat (map ?ev ?outs)"
    using t s1 by simp
  have 6: "mean_kl s' = (if ?outs = [] then mean_kl s else Some (recorded_mean_kl (last ?outs)))"
    using m s1 by simp
  have 7: "logs s' =
       (if ?outs = [] then logs s
        else Some \<lparr> log_loss = model_loss (last ?outs), log_pg_loss = pg_loss (last ?outs),
                     log_vf_loss = vf_loss (last ?outs), log_batch = b,
                     log_rewards = rewards b \<rparr>)"
    using g s1 by simp
  have 8: "kl_ctl s' = kl_ctl s \<and> epoch s' = epoch s \<and> store s' = store s"
    using f s1 by simp
  from 1 2 3 4 5 6 7 8 show ?case by blast
qed

lemma post_backward_callback_Inr:
  assumes "post_backward_callback env config s = Inr s'"
  shows "\<exists>k lg.
           mean_kl s = Some k \<and> logs s = Some lg \<and>
           update (kl_ctl s) k (of_int (batch_size (train_cfg config))) = Inr (kl_ctl s') \<and>
           trace s' =
             trace s @ [EvKLUpdate k (of_int (batch_size (train_cfg config)))] @
             (if is_main_process env \<and>
                 (iter_count s mod eval_interval (train_cfg config) = 0 \<or>
                  iter_count s \<le> ppo_epochs (method_cfg config))
              then [EvEvaluate (iter_count s)] else []) \<and>
           iter_count s' = iter_count s \<and> epoch s' = epoch s \<and> policy s' = policy s \<and>
           store s' = store s \<and> mean_kl s' = mean_kl s \<and> logs s' = logs s"
  using assms
  by (auto simp: post_backward_callback_def Let_def split: option.splits sum.splits if_splits)

text \<open>
  C7. When the body of the loop over mini-batches returns normally for the mini-batch
  \<open>b\<close>, it has run exactly \<open>ppo_epochs\<close> optimization passes on \<open>b\<close>. Pass \<open>i\<close> calls
  \<open>loss\<close> on \<open>b\<close> with the policy as the \<open>i\<close> earlier optimizer steps on \<open>b\<close> have
  left it (\<open>outs ! i\<close> is what that call returns) and is followed by \<open>zero_grad\<close>,
  \<open>backward\<close>, one optimizer step and one scheduler step; \<open>iter_count\<close> grows by one
  per pass. After the passes there is exactly one \<open>update\<close> of the KL controller. Its
  arguments are the mean KL that the loss of the last pass recorded (the stored one when
  there was no pass) and the configured batch size. \<open>logs\<close> holds the losses of the last
  pass. Then come the evaluation, on the coordinator when it is due, and the barrier.
\<close>

theorem C7_passes_and_kl_update:
  assumes "process_batch env config s b = Inr s'"
  shows "\<exists>outs k.
           length outs = nat (ppo_epochs (method_cfg config)) \<and>
           (\<forall>i<length outs.
              loss (method_cfg config) (whiten_fn env)
                (fst (forward env (((\<lambda>p. opt_step env p b) ^^ i) (policy s)) b))
                (snd (forward env (((\<lambda>p. opt_step env p b) ^^ i) (policy s)) b))
                (shape1 (response_tensors b)) (logprobs b) (values' b) (rewards b) =
              Inr (outs ! i)) \<and>
           iter_count s' = iter_count s + int (length outs) \<and>
           policy s' = ((\<lambda>p. opt_step env p b) ^^ length outs) (policy s) \<and>
           trace s' =
             trace s @
             concat (map (\<lambda>out. [EvLoss b (recorded_mean_kl out), EvZeroGrad, EvBackward,
                                   EvOptStep, EvSchedStep]) outs) @
             [EvKLUpdate k (of_int (batch_size (train_cfg config)))] @
             (if is_main_process env \<and>
                 (iter_count s' mod eval_interval (train_cfg config) = 0 \<or>
                  iter_count s' \<le> ppo_epochs (method_cfg config))
              then [EvEvaluate (iter_count s')] else []) @
             [EvBarrier] \<and>
           (if outs = [] then mean_kl s = Some k else k = recorded_mean_kl (last outs)) \<and>
           update (kl_ctl s) k (of_int (batch_size (train_cfg config))) = Inr (kl_ctl s') \<and>
           logs s' =
             (if outs = [] then logs s
              else Some \<lparr> log_loss = model_loss (last outs), log_pg_loss = pg_loss (last outs),
                           log_vf_loss = vf_loss (last outs), log_batch = b,
                           log_rewards = rewards b \<rparr>)"
proof -
  let ?n = "nat (ppo_epochs (method_cfg config))"
  let ?step = "\<lambda>p. opt_step env p b"
  let ?ev = "\<lambda>out. [EvLoss b (recorded_mean_kl out), EvZeroGrad, EvBackward, EvOptStep,
                       EvSchedStep]"
  let ?bs = "of_int (batch_size (train_cfg config)) :: real"
  from assms obtain s1 s2 where
    p: "passes env config b ?n s = Inr s1"
    and c: "post_backward_callback env config s1 = Inr s2"
    and s': "s' = s2\<lparr> trace := trace s2 @ [EvBarrier] \<rparr>"
    by (auto simp: process_batch_def split: sum.splits)
  from passes_Inr [OF p] obtain outs :: "loss_out list" where
    k: "length outs = ?n"
    and ls: "\<forall>i<?n. loss (method_cfg config) (whiten_fn env)
               (fst (forward env ((?step ^^ i) (policy s)) b))
               (snd (forward env ((?step ^^ i) (policy s)) b))
               (shape1 (response_tensors b)) (logprobs b) (values' b) (rewards b) =
             Inr (outs ! i)"
    and i: "iter_count s1 = iter_count s + int ?n"
    and po: "policy s1 = (?step ^^ ?n) (policy s)"
    and t: "trace s1 = trace s @ concat (map ?ev outs)"
    and m: "mean_kl s1 = (if outs = [] then mean_kl s else Some (recorded_mean_kl (last outs)))"
    and g: "logs s1 =
       (if outs = [] then logs s
        else Some \<lparr> log_loss = model_loss (last outs), log_pg_loss = pg_loss (last outs),
                     log_vf_loss = vf_loss (last outs), log_batch = b,
                     log_rewards = rewards b \<rparr>)"
    and f: "kl_ctl s1 = kl_ctl s"
    by blast
  from post_backward_callback_Inr [OF c] obtain k' where
    mk: "mean_kl s1 = Some k'"
    and u: "update (kl_ctl s1) k' ?bs = Inr (kl_ctl s2)"
    and t2: "trace s2 =
             trace s1 @ [EvKLUpdate k' ?bs] @
             (if is_main_process env \<and>
                 (iter_count s1 mod eval_interval (train_cfg config) = 0 \<or>
                  iter_count s1 \<le> ppo_epochs (method_cfg config))
              then [EvEvaluate (iter_count s1)] else [])"
    and e: "iter_count s2 = iter_count s1" "policy s2 = policy s1" "logs s2 = logs s1"
    by blast
  have i': "iter_count s' = iter_count s1" using s' e by simp
  have 1: "\<forall>i<length outs. loss (method_cfg config) (whiten_fn env)
               (fst (forward env ((?step ^^ i) (policy s)) b))
               (snd (forward env ((?step ^^ i) (policy s)) b))
               (shape1 (response_tensors b)) (logprobs b) (values' b) (rewards b) =
             Inr (outs ! i)"
    using ls k by simp
  have 2: "iter_count s' = iter_count s + int (length outs)"
    using i' i k by simp
  have 3: "policy s' = (?step ^^ length outs) (policy s)"
    using s' e po k by simp
  have 4: "trace s' =
             trace s @ concat (map ?ev outs) @ [EvKLUpdate k' ?bs] @
             (if is_main_process env \<and>
                 (iter_count s' mod eval_interval (train_cfg config) = 0 \<or>
                  iter_count s' \<le> ppo_epochs (method_cfg config))
              then [EvEvaluate (iter_count s')] else []) @
             [EvBarrier]"
    unfolding i' using s' t t2 by simp
  have 5: "if outs = [] then mean_kl s = Some k' else k' = recorded_mean_kl (last outs)"
    using m mk by (simp split: if_splits)
  have 6: "update (kl_ctl s) k' ?bs = Inr (kl_ctl s')"
    using u f s' by simp
  have 7: "logs s' =
             (if outs = [] then logs s
              else Some \<lparr> log_loss = model_loss (last outs), log_pg_loss = pg_loss (last outs),
                           log_vf_loss = vf_loss (last outs), log_batch = b,
                           log_rewards = rewards b \<rparr>)"
    using g e s' by simp
  from k 1 2 3 4 5 6 7 show ?thesis by blast
qed

lemma process_batch_frame:
  assumes "process_batch env config s b = Inr s'"
  shows "iter_count s \<le> iter_count s' \<and> epoch s' = epoch s"
proof -
  from assms obtain s1 s2 where
    p: "passes env config b (nat (ppo_epochs (method_cfg config))) s = Inr s1"
    and c: "post_backward_callback env config s1 = Inr s2"
    and s': "s' = s2\<lparr> trace := trace s2 @ [EvBarrier] \<rparr>"
    by (auto simp: process_batch_def split: sum.splits)
  from passes_Inr [OF p] have "iter_count s \<le> iter_count s1" and "epoch s1 = epoch s"
    by auto
  moreover from post_backward_callback_Inr [OF c]
  have "iter_count s2 = iter_count s1" and "epoch s2 = epoch s1"
    by auto
  ultimately show ?thesis using s' by simp
qed

lemma run_batches_frame:
  "run_batches env config s bs = Inr s' \<Longrightarrow>
   iter_count s \<le> iter_count s' \<and> epoch s' = epoch s"
proof (induction bs arbitrary: s)
  case Nil
  then show ?case by simp
next
  case (Cons b bs)
  from Cons.prems obtain s1 where p: "process_batch env config s b = Inr s1"
    and r: "run_batches env config s1 bs = Inr s'"
    by (auto split: sum.splits)
  from process_batch_frame [OF p] Cons.IH [OF r] show ?case by simp
qed

lemma epoch_body_Inr:
  assumes "epoch_body env config s = Inr s'"
  shows "epoch s' = epoch s + 1 \<and> iter_count s \<le> iter_count s'"
proof -
  from assms obtain s1 where r: "run_batches env config s (store s) = Inr s1"
    and s': "s' = (post_epoch_callback env config s1)
                    \<lparr> trace := trace (post_epoch_callback env config s1) @ [EvBarrier] \<rparr>"
    by (auto simp: epoch_body_def Let_def split: sum.splits)
  from run_batches_frame [OF r] show ?thesis
    using s' by (simp add: post_epoch_callback_def)
qed

lemma learn_loop_exit:
  "learn_loop env config fuel s = Some (Inr s') \<Longrightarrow> \<not> loop_condition config s'"
proof (induction fuel arbitrary: s)
  case 0
  then show ?case
    by (simp add: learn_loop.simps [of env config 0 s] split: if_splits)
next
  case (Suc fuel)
  show ?case
  proof (cases "loop_condition config s")
    case False
    with Suc.prems show ?thesis
      by (simp add: learn_loop.simps [of env config "Suc fuel" s])
  next
    case True
    with Suc.prems obtain s1 where "epoch_body env config s = Inr s1"
      and "learn_loop env config fuel s1 = Some (Inr s')"
      by (auto simp: learn_loop.simps [of env config "Suc fuel" s] split: sum.splits)
    then show ?thesis using Suc.IH by blast
  qed
qed

lemma learn_loop_continue:
  "loop_condition config s \<Longrightarrow>
   learn_loop env config (Suc fuel) s =
     (case epoch_body env config s of
        Inl e \<Rightarrow> Some (Inl e)
      | Inr s' \<Rightarrow> learn_loop env config fuel s')"
  by (simp add: learn_loop.simps [of env config "Suc fuel" s])

lemma learn_loop_stop:
  "\<not> loop_condition config s \<Longrightarrow> learn_loop env config fuel s = Some (Inr s)"
  by (simp add: learn_loop.simps [of env config fuel s])

lemma learn_zero_bounds:
  assumes t: "total_steps (train_cfg config) = 0" and e: "epochs (train_cfg config) = 0"
  shows "learn env config (Suc fuel) s =
           Some (epoch_body env config (s\<lparr> iter_count := 0, epoch := 0 \<rparr>))"
proof -
  let ?s = "s\<lparr> iter_count := 0, epoch := 0 \<rparr>"
  have c: "loop_condition config ?s"
    using e by (simp add: loop_condition_def)
  show ?thesis
  proof (cases "epoch_body env config ?s")
    case (Inl err)
    then show ?thesis
      by (simp add: learn_def learn_loop_continue [OF c])
  next
    case (Inr s1)
    from epoch_body_Inr [OF Inr] have "\<not> loop_condition config s1"
      using t e by (simp add: loop_condition_def)
    then show ?thesis
      using Inr by (simp add: learn_def learn_loop_continue [OF c] learn_loop_stop)
  qed
qed

text \<open>
  C4. \<open>learn\<close> starts with both counters at zero. When it returns normally, both
  \<open>iter_count \<ge> total_steps\<close> and \<open>epoch > epochs\<close> hold. In a state where either
  bound is unmet the loop does not exit: it runs the epoch body, and goes on from the
  state the body returns (or ends with the body's exception). With \<open>total_steps = 0\<close>
  and \<open>epochs = 0\<close> the result of \<open>learn\<close> is the result of running the epoch body
  exactly once.
\<close>

theorem C4_loop_termination:
  "(learn env config fuel s = Some (Inr s') \<longrightarrow>
      total_steps (train_cfg config) \<le> iter_count s' \<and> epochs (train_cfg config) < epoch s') \<and>
   (iter_count st < total_steps (train_cfg config) \<or> epoch st \<le> epochs (train_cfg config) \<longrightarrow>
      learn_loop env config (Suc fuel) st =
        (case epoch_body env config st of
           Inl e \<Rightarrow> Some (Inl e)
         | Inr st' \<Rightarrow> learn_loop env config fuel st')) \<and>
   (total_steps (train_cfg config) = 0 \<and> epochs (train_cfg config) = 0 \<longrightarrow>
      learn env config (Suc fuel) s =
        Some (epoch_body env config (s\<lparr> iter_count := 0, epoch := 0 \<rparr>)))"
proof (intro conjI impI)
  assume "learn env config fuel s = Some (Inr s')"
  then have "\<not> loop_condition config s'"
    unfolding learn_def by (rule learn_loop_exit)
  then show "total_steps (train_cfg config) \<le> iter_count s'"
    and "epochs (train_cfg config) < epoch s'"
    by (simp_all add: loop_condition_def)
next
  assume "iter_count st < total_steps (train_cfg config) \<or> epoch st \<le> epochs (train_cfg config)"
  then have "loop_condition config st" by (simp add: loop_condition_def)
  then show "learn_loop env config (Suc fuel) st =
        (case epoch_body env config st of
           Inl e \<Rightarrow> Some (Inl e)
         | Inr st' \<Rightarrow> learn_loop env config fuel st')"
    by (rule learn_loop_continue)
next
  assume "total_steps (train_cfg config) = 0 \<and> epochs (train_cfg config) = 0"
  then show "learn env config (Suc fuel) s =
        Some (epoch_body env config (s\<lparr> iter_count := 0, epoch := 0 \<rparr>))"
    by (simp add: learn_zero_bounds)
qed

lemma update_not_AttributeError: "update c k n \<noteq> Inl AttributeError"
  by (cases c) simp_all

lemma post_backward_callback_assigned:
  "mean_kl s = Some k \<Longrightarrow> logs s = Some lg \<Longrightarrow>
   post_backward_callback env config s \<noteq> Inl AttributeError"
  using update_not_AttributeError [of "kl_ctl s" k "of_int (batch_size (train_cfg config))"]
  by (auto simp: post_backward_callback_def Let_def split: sum.splits)

lemma learn_no_passes:
  assumes p: "ppo_epochs (method_cfg config) = 0"
    and i: "AcceleratePPOModel_init config p0 (b # bs) = Inr s0"
    and c: "0 < total_steps (train_cfg config) \<or> 0 \<le> epochs (train_cfg config)"
  shows "learn env config (Suc fuel) s0 = Some (Inl AttributeError)"
proof -
  let ?s = "s0\<lparr> iter_count := 0, epoch := 0 \<rparr>"
  from i have l: "logs ?s = None" and st: "store ?s = b # bs"
    by (auto simp: AcceleratePPOModel_init_def AdaptiveKLController_init_def
        FixedKLController_init_def split: option.splits)
  have lc: "loop_condition config ?s"
    using c by (simp add: loop_condition_def)
  have "post_backward_callback env config ?s = Inl AttributeError"
    using l by (simp add: post_backward_callback_def)
  then have "process_batch env config ?s b = Inl AttributeError"
    using p by (simp add: process_batch_def)
  then have "epoch_body env config ?s = Inl AttributeError"
    using st by (simp add: epoch_body_def)
  then show ?thesis
    by (simp add: learn_def learn_loop_continue [OF lc])
qed

text \<open>
  C10. With \<open>ppo_epochs \<ge> 1\<close>, once the passes over a mini-batch have returned,
  \<open>mean_kl\<close> and \<open>logs\<close> hold what the loss of the last pass produced, and
  \<open>post_backward_callback\<close> does not fail on an unassigned attribute. With
  \<open>ppo_epochs = 0\<close>, for a freshly constructed trainer whose store has a first
  mini-batch and whose loop is entered, no pass runs, \<open>mean_kl\<close> and \<open>logs\<close> are
  unassigned, and \<open>learn\<close> ends with \<open>AttributeError\<close> in the first epoch.
\<close>

theorem C10_ppo_epochs_precondition:
  "(1 \<le> ppo_epochs (method_cfg config) \<and>
    passes env config b (nat (ppo_epochs (method_cfg config))) s = Inr s1 \<longrightarrow>
      (\<exists>s_mid out.
         passes env config b (nat (ppo_epochs (method_cfg config)) - 1) s = Inr s_mid \<and>
         loss (method_cfg config) (whiten_fn env)
           (fst (forward env (policy s_mid) b)) (snd (forward env (policy s_mid) b))
           (shape1 (response_tensors b)) (logprobs b) (values' b) (rewards b) = Inr out \<and>
         mean_kl s1 = Some (recorded_mean_kl out) \<and>
         logs s1 = Some \<lparr> log_loss = model_loss out, log_pg_loss = pg_loss out,
                           log_vf_loss = vf_loss out, log_batch = b,
                           log_rewards = rewards b \<rparr>) \<and>
      post_backward_callback env config s1 \<noteq> Inl AttributeError) \<and>
   (ppo_epochs (method_cfg config) = 0 \<and>
    AcceleratePPOModel_init config p0 (b # bs) = Inr s0 \<and>
    (0 < total_steps (train_cfg config) \<or> 0 \<le> epochs (train_cfg config)) \<longrightarrow>
      passes env config b (nat (ppo_epochs (method_cfg config))) s0 = Inr s0 \<and>
      mean_kl s0 = None \<and> logs s0 = None \<and>
      learn env config (Suc fuel) s0 = Some (Inl AttributeError))"
proof (intro conjI impI)
  assume a: "1 \<le> ppo_epochs (method_cfg config) \<and>
    passes env config b (nat (ppo_epochs (method_cfg config))) s = Inr s1"
  then obtain n where n: "nat (ppo_epochs (method_cfg config)) = Suc n"
    by (cases "nat (ppo_epochs (method_cfg config))") auto
  from a n have "passes env config b (Suc n) s = Inr s1" by simp
  from passes_snoc [OF this] obtain s_mid where
    m: "passes env config b n s = Inr s_mid"
    and o: "optimization_pass env config b s_mid = Inr s1" by blast
  from optimization_pass_Inr [OF o] obtain out :: loss_out where
    l: "loss (method_cfg config) (whiten_fn env)
           (fst (forward env (policy s_mid) b)) (snd (forward env (policy s_mid) b))
           (shape1 (response_tensors b)) (logprobs b) (values' b) (rewards b) = Inr out"
    and s1: "s1 = s_mid\<lparr> mean_kl := Some (recorded_mean_kl out),
                   logs := Some \<lparr> log_loss = model_loss out, log_pg_loss = pg_loss out,
                                  log_vf_loss = vf_loss out, log_batch = b,
                                  log_rewards = rewards b \<rparr>,
                   policy := opt_step env (policy s_mid) b,
                   iter_count := iter_count s_mid + 1,
                   trace := trace s_mid @
                     [EvLoss b (recorded_mean_kl out), EvZeroGrad, EvBackward, EvOptStep,
                      EvSchedStep] \<rparr>"
    by blast
  have mk: "mean_kl s1 = Some (recorded_mean_kl out)"
    and lg: "logs s1 = Some \<lparr> log_loss = model_loss out, log_pg_loss = pg_loss out,
                           log_vf_loss = vf_loss out, log_batch = b,
                           log_rewards = rewards b \<rparr>"
    using s1 by simp_all
  from m l mk lg n
  show "\<exists>s_mid out.
         passes env config b (nat (ppo_epochs (method_cfg config)) - 1) s = Inr s_mid \<and>
         loss (method_cfg config) (whiten_fn env)
           (fst (forward env (policy s_mid) b)) (snd (forward env (policy s_mid) b))
           (shape1 (response_tensors b)) (logprobs b) (values' b) (rewards b) = Inr out \<and>
         mean_kl s1 = Some (recorded_mean_kl out) \<and>
         logs s1 = Some \<lparr> log_loss = model_loss out, log_pg_loss = pg_loss out,
                           log_vf_loss = vf_loss out, log_batch = b,
                           log_rewards = rewards b \<rparr>"
    by auto
  from mk lg show "post_backward_callback env config s1 \<noteq> Inl AttributeError"
    by (rule post_backward_callback_assigned)
next
  assume a: "ppo_epochs (method_cfg config) = 0 \<and>
    AcceleratePPOModel_init config p0 (b # bs) = Inr s0 \<and>
    (0 < total_steps (train_cfg config) \<or> 0 \<le> epochs (train_cfg config))"
  then show "passes env config b (nat (ppo_epochs (method_cfg config))) s0 = Inr s0"
    by simp
  from a show "mean_kl s0 = None" and "logs s0 = None"
    by (auto simp: AcceleratePPOModel_init_def AdaptiveKLController_init_def
        FixedKLController_init_def split: option.splits)
  from a have "ppo_epochs (method_cfg config) = 0"
    and "AcceleratePPOModel_init config p0 (b # bs) = Inr s0"
    and "0 < total_steps (train_cfg config) \<or> 0 \<le> epochs (train_cfg config)"
    by blast+
  then show "learn env config (Suc fuel) s0 = Some (Inl AttributeError)"
    by (rule learn_no_passes)
qed

text \<open>The equations that evaluate \<open>learn\<close> and its parts on the example trainer.\<close>

lemmas learn_eval =
  process_batch_def optimization_pass_def post_backward_callback_def epoch_body_def
  post_epoch_callback_def shape1_def mult_def np_clip_def
  env0_def config0_def model0_def b0_def m0_def

text \<open>
  The theorem at the example trainer: two passes, whose losses record the mean KL \<open>0\<close>
  and \<open>1\<close>, then one controller update with \<open>(1, 8)\<close>, the evaluation at step 2 and the
  barrier.
\<close>

theorem C7_witness:
  "\<exists>s'. process_batch env0 config0 model0 b0 = Inr s' \<and>
        iter_count s' = 2 \<and> policy s' = 2 \<and>
        trace s' =
          [EvLoss b0 0, EvZeroGrad, EvBackward, EvOptStep, EvSchedStep,
           EvLoss b0 1, EvZeroGrad, EvBackward, EvOptStep, EvSchedStep,
           EvKLUpdate 1 8, EvEvaluate 2, EvBarrier] \<and>
        mean_kl s' = Some 1"
proof -
  have "\<exists>s'. process_batch env0 config0 model0 b0 = Inr s' \<and>
        trace s' =
          [EvLoss b0 0, EvZeroGrad, EvBackward, EvOptStep, EvSchedStep,
           EvLoss b0 1, EvZeroGrad, EvBackward, EvOptStep, EvSchedStep,
           EvKLUpdate 1 8, EvEvaluate 2, EvBarrier] \<and>
        mean_kl s' = Some 1"
    by (simp add: learn_eval loss_eval)
  then obtain s' where e: "process_batch env0 config0 model0 b0 = Inr s'"
    and t: "trace s' =
          [EvLoss b0 0, EvZeroGrad, EvBackward, EvOptStep, EvSchedStep,
           EvLoss b0 1, EvZeroGrad, EvBackward, EvOptStep, EvSchedStep,
           EvKLUpdate 1 8, EvEvaluate 2, EvBarrier]"
    and m: "mean_kl s' = Some 1"
    by blast
  from C7_passes_and_kl_update [OF e] obtain outs :: "loss_out list" where
    k: "length outs = nat (ppo_epochs (method_cfg config0))"
    and i: "iter_count s' = iter_count model0 + int (length outs)"
    and p: "policy s' = ((\<lambda>p. opt_step env0 p b0) ^^ length outs) (policy model0)"
    by blast
  have n: "nat (ppo_epochs (method_cfg config0)) = Suc (Suc 0)"
    by (simp add: config0_def)
  have "iter_count s' = 2"
    using i k n by (simp add: model0_def)
  moreover have "policy s' = 2"
    using p k n by (simp add: model0_def env0_def)
  ultimately show ?thesis using e t m by blast
qed

text \<open>
  The theorem at the example trainer, whose configuration has \<open>total_steps = 0\<close> and
  \<open>epochs = 0\<close>: \<open>learn\<close> returns after one epoch of two optimizer steps.
\<close>

theorem C4_witness:
  "total_steps (train_cfg config0) = 0 \<and> epochs (train_cfg config0) = 0 \<and>
   (\<exists>s'. learn env0 config0 (Suc 0) model0 = Some (Inr s') \<and>
         epoch s' = 1 \<and> iter_count s' = 2 \<and>
         total_steps (train_cfg config0) \<le> iter_count s' \<and>
         epochs (train_cfg config0) < epoch s')"
proof -
  have z: "total_steps (train_cfg config0) = 0 \<and> epochs (train_cfg config0) = 0"
    by (simp add: config0_def)
  have "\<exists>s1. epoch_body env0 config0 (model0\<lparr> iter_count := 0, epoch := 0 \<rparr>) = Inr s1 \<and>
             epoch s1 = 1 \<and> iter_count s1 = 2"
    by (simp add: learn_eval loss_eval)
  then obtain s1 where b: "epoch_body env0 config0 (model0\<lparr> iter_count := 0, epoch := 0 \<rparr>) = Inr s1"
    and e: "epoch s1 = 1" and i: "iter_count s1 = 2"
    by blast
  have l: "learn env0 config0 (Suc 0) model0 = Some (Inr s1)"
    using C4_loop_termination [where env = env0 and config = config0 and fuel = 0
        and s = model0] z b
    by simp
  have "total_steps (train_cfg config0) \<le> iter_count s1 \<and> epochs (train_cfg config0) < epoch s1"
    using C4_loop_termination [where env = env0 and config = config0 and fuel = "Suc 0"
        and s = model0 and s' = s1] l
    by blast
  with z l e i show ?thesis by blast
qed

text \<open>
  The theorem at the example trainer, with \<open>ppo_epochs = 2\<close> and with \<open>ppo_epochs = 0\<close>.
\<close>

theorem C10_witness:
  "1 \<le> ppo_epochs (method_cfg config0) \<and>
   (\<exists>s1. passes env0 config0 b0 (nat (ppo_epochs (method_cfg config0))) model0 = Inr s1 \<and>
         mean_kl s1 = Some 1 \<and>
         post_backward_callback env0 config0 s1 \<noteq> Inl AttributeError) \<and>
   ppo_epochs (method_cfg (config0\<lparr>method_cfg := m0\<lparr>ppo_epochs := 0\<rparr>\<rparr>)) = 0 \<and>
   AcceleratePPOModel_init (config0\<lparr>method_cfg := m0\<lparr>ppo_epochs := 0\<rparr>\<rparr>) 0 [b0] = Inr model0 \<and>
   0 \<le> epochs (train_cfg (config0\<lparr>method_cfg := m0\<lparr>ppo_epochs := 0\<rparr>\<rparr>)) \<and>
   learn env0 (config0\<lparr>method_cfg := m0\<lparr>ppo_epochs := 0\<rparr>\<rparr>) (Suc 0) model0 =
     Some (Inl AttributeError)"
proof -
  let ?c1 = "config0\<lparr>method_cfg := m0\<lparr>ppo_epochs := 0\<rparr>\<rparr>"
  have a: "1 \<le> ppo_epochs (method_cfg config0)"
    by (simp add: config0_def)
  have "\<exists>s1. passes env0 config0 b0 (nat (ppo_epochs (method_cfg config0))) model0 = Inr s1 \<and>
             mean_kl s1 = Some 1"
    by (simp add: learn_eval loss_eval)
  then obtain s1 where
    p: "passes env0 config0 b0 (nat (ppo_epochs (method_cfg config0))) model0 = Inr s1"
    and m: "mean_kl s1 = Some 1"
    by blast
  have n: "post_backward_callback env0 config0 s1 \<noteq> Inl AttributeError"
    using C10_ppo_epochs_precondition [where config = config0 and env = env0 and b = b0
        and s = model0 and ?s1.0 = s1] a p
    by blast
  have z: "ppo_epochs (method_cfg ?c1) = 0" by simp
  have i: "AcceleratePPOModel_init ?c1 0 [b0] = Inr model0"
    by (simp add: AcceleratePPOModel_init_def AdaptiveKLController_init_def config0_def m0_def
        model0_def)
  have e: "0 \<le> epochs (train_cfg ?c1)" by (simp add: config0_def)
  have l: "learn env0 ?c1 (Suc 0) model0 = Some (Inl AttributeError)"
    using C10_ppo_epochs_precondition [where config = ?c1 and ?p0.0 = 0 and b = b0
        and bs = "[]" and ?s0.0 = model0 and env = env0 and fuel = 0] z i e
    by blast
  from a p m n z i e l show ?thesis by blast
qed

end
